theory Spec2Isabelle
  imports Main "HOL-Library.Word"
begin

unbundle bit_operations_syntax

section \<open>Wire primitives of mqtt\_client.c\<close>

text \<open>
  Bytes are \<open>uint8_t\<close>; the other machine integers of the source keep their width.
  A pack function of the source stores bytes through the write cursor \<open>stat->pout\<close>
  and advances it; here each pack function returns the bytes it stores, in order.
  An unpack function of the source reads through the read cursor \<open>stat->pin\<close> without
  any bound check; here it takes the receive buffer and the cursor offset and returns
  the value with the advanced offset, or \<open>None\<close> where the C code would read outside
  the buffer.
\<close>

type_synonym byte = "8 word"
type_synonym bytes = "byte list"

definition pack_byte :: "byte \<Rightarrow> bytes" where
  "pack_byte d = [d]"

definition pack_word :: "16 word \<Rightarrow> bytes" where
  "pack_word d = pack_byte (ucast (drop_bit 8 d)) @ pack_byte (ucast d)"

definition pack_dword :: "32 word \<Rightarrow> bytes" where
  "pack_dword d =
     pack_byte (ucast (drop_bit 24 d)) @ pack_byte (ucast (drop_bit 16 d)) @
     pack_byte (ucast (drop_bit 8 d)) @ pack_byte (ucast d)"

definition unpack_byte :: "bytes \<Rightarrow> nat \<Rightarrow> (byte \<times> nat) option" where
  "unpack_byte buf pin = (if pin < length buf then Some (buf ! pin, pin + 1) else None)"

definition unpack_word :: "bytes \<Rightarrow> nat \<Rightarrow> (16 word \<times> nat) option" where
  "unpack_word buf pin =
     (case unpack_byte buf pin of None \<Rightarrow> None
      | Some (hi, p1) \<Rightarrow>
          (case unpack_byte buf p1 of None \<Rightarrow> None
           | Some (lo, p2) \<Rightarrow> Some (push_bit 8 (ucast hi) OR ucast lo, p2)))"

text \<open>
  \<open>pack_variable_size\<close>: the do-while loop emits seven bits per byte, low group first,
  with bit 7 set on every byte but the last.
\<close>

function pack_variable_size :: "32 word \<Rightarrow> bytes" where
  "pack_variable_size sz =
     (let encoded = (ucast (sz AND 0x7f) :: byte);
          sz' = drop_bit 7 sz;
          encoded' = (if sz' > 0 then encoded OR 0x80 else encoded)
      in if sz' > 0 then pack_byte encoded' @ pack_variable_size sz'
         else pack_byte encoded')"
  by pat_completeness auto
termination
proof (relation "measure unat")
  show "wf (measure unat)" by simp
next
  fix sz :: "32 word" and x xa xb
  assume xa: "xa = drop_bit 7 sz" and pos: "0 < xa"
  have a1: "unat (drop_bit 7 sz) = unat sz div 2 ^ 7"
    by (simp add: drop_bit_eq_div unat_div)
  from xa pos have "unat (drop_bit 7 sz) \<noteq> 0"
    unfolding word_greater_zero_iff by (simp only: unat_eq_0 not_False_eq_True)
  then have "unat sz div 2 ^ 7 \<noteq> 0" using a1 by simp
  then have "unat sz div 2 ^ 7 < unat sz" by simp
  then have "unat (drop_bit 7 sz) < unat sz" using a1 by simp
  then show "(xa, sz) \<in> measure unat"
    using xa by simp
qed

declare pack_variable_size.simps [simp del]

text \<open>
  \<open>unpack_variable_size\<close>.  The source reads

  \<^verbatim>\<open>
    uint8_t encoded_byte = 0;
    int shift = 0;
    do {
        uint8_t encoded_byte = unpack_byte(stat);
        value += (encoded_byte & 0x7F) * multiplier;
        multiplier <<= 7;
        shift++;
    } while ((encoded_byte & 0x80) != 0 && shift < 4);
  \<close>

  The declaration inside the loop body is a second variable whose scope ends with the
  body's closing brace, so the loop condition tests the outer \<open>encoded_byte\<close>, which is
  never assigned after its initialisation to 0.  The loop below carries both: \<open>outer\<close>
  is the variable the condition reads, \<open>inner\<close> the one the body declares.
\<close>

function unpack_variable_size_loop ::
  "bytes \<Rightarrow> byte \<Rightarrow> 32 word \<Rightarrow> 32 word \<Rightarrow> nat \<Rightarrow> nat \<Rightarrow> (32 word \<times> nat) option" where
  "unpack_variable_size_loop buf outer multiplier val shift pin =
     (case unpack_byte buf pin of None \<Rightarrow> None
      | Some (inner, pin') \<Rightarrow>
          (let val' = val + ucast (inner AND 0x7F) * multiplier;
               multiplier' = push_bit 7 multiplier;
               shift' = shift + 1
           in if outer AND 0x80 \<noteq> 0 \<and> shift' < 4
              then unpack_variable_size_loop buf outer multiplier' val' shift' pin'
              else Some (val', pin')))"
  by pat_completeness auto
termination
  by (relation "measure (\<lambda>(buf, outer, multiplier, val, shift, pin). 4 - shift)") auto

declare unpack_variable_size_loop.simps [simp del]

definition unpack_variable_size :: "bytes \<Rightarrow> nat \<Rightarrow> (32 word \<times> nat) option" where
  "unpack_variable_size buf pin = unpack_variable_size_loop buf 0 1 0 0 pin"

definition get_variable_size_byte_count :: "32 word \<Rightarrow> byte" where
  "get_variable_size_byte_count len =
     (if len \<le> 127 then 1
      else if len \<le> 16383 then 2
      else if len \<le> 2097151 then 3
      else 4)"

section \<open>Strings, blobs and the UTF-8 validator\<close>

text \<open>
  A \<open>const char *\<close> is \<open>None\<close> for the null pointer and otherwise the bytes before
  the terminating NUL.  \<open>STRLEN(s)\<close> is \<open>(s) ? strlen(s) + 2 : 2\<close>; its \<open>size_t\<close>
  value is only ever added into \<open>uint32_t\<close> sums, so it is taken modulo \<open>2^32\<close>.
\<close>

type_synonym cstring = "bytes option"

definition STRLEN :: "cstring \<Rightarrow> 32 word" where
  "STRLEN s = (case s of None \<Rightarrow> 2 | Some b \<Rightarrow> of_nat (length b) + 2)"

record mqtt_blob =
  blob_data :: "bytes option"
  blob_len :: "16 word"

definition BLEN :: "mqtt_blob \<Rightarrow> 32 word" where
  "BLEN b = ucast (blob_len b) + 2"

text \<open>
  \<open>pack_string\<close> calls \<open>strlen\<close> on its argument (undefined for the null pointer:
  \<open>None\<close>), keeps the length in a \<open>uint16_t\<close> and writes that many bytes.
\<close>

definition pack_string :: "cstring \<Rightarrow> bytes option" where
  "pack_string s =
     (case s of None \<Rightarrow> None
      | Some b \<Rightarrow>
          (let len = (of_nat (length b) :: 16 word)
           in Some (pack_word len @ take (unat len) b)))"

text \<open>
  \<open>pack_binary\<close> writes the length and then, when the data pointer is not null,
  \<open>len\<close> bytes read from it (\<open>None\<close> when the blob holds fewer bytes than \<open>len\<close>).
\<close>

definition pack_binary :: "mqtt_blob \<Rightarrow> bytes option" where
  "pack_binary blob =
     (let len = blob_len blob
      in case blob_data blob of
           None \<Rightarrow> Some (pack_word len)
         | Some d \<Rightarrow>
             (if unat len \<le> length d then Some (pack_word len @ take (unat len) d)
              else None))"

text \<open>
  \<open>unpack_string\<close> returns the null pointer for length 0 and otherwise a fresh
  NUL-terminated copy of the next \<open>len\<close> bytes; as a C string that copy ends at its
  first NUL byte.
\<close>

definition unpack_string :: "bytes \<Rightarrow> nat \<Rightarrow> (cstring \<times> nat) option" where
  "unpack_string buf pin =
     (case unpack_word buf pin of None \<Rightarrow> None
      | Some (len, p) \<Rightarrow>
          (if unat len > 0 then
             (if p + unat len \<le> length buf
              then Some (Some (takeWhile (\<lambda>b. b \<noteq> 0) (take (unat len) (drop p buf))),
                         p + unat len)
              else None)
           else Some (None, p)))"

text \<open>
  \<open>is_valid_utf8(const char *str, size_t length)\<close> of utf8.c.  The elements of \<open>str\<close>
  have the plain type \<open>char\<close>, whose signedness the C standard leaves to the
  implementation: it is signed under the x86 and x86-64 ABIs of the desktop targets of
  the socket back end, and unsigned under the ARM EABI of the Pico target.  The first
  test of the loop, \<open>str[i] <= 0x7F\<close>, compares the promoted \<open>char\<close> value, so the
  model takes the signedness as the parameter \<open>char_signed\<close>.  Every later use of
  \<open>str[i]\<close> is masked with a constant below \<open>0x100\<close> or stored into an
  \<open>unsigned char\<close>, which keeps the low eight bits whatever the signedness.
\<close>

definition char_value :: "bool \<Rightarrow> byte \<Rightarrow> int" where
  "char_value char_signed b = (if char_signed then sint b else uint b)"

definition utf8_byte_count :: "byte \<Rightarrow> nat option" where
  "utf8_byte_count first_byte =
     (if first_byte AND 0xE0 = 0xC0 then Some 2
      else if first_byte AND 0xF0 = 0xE0 then Some 3
      else if first_byte AND 0xF8 = 0xF0 then Some 4
      else None)"

definition utf8_overlong :: "nat \<Rightarrow> byte \<Rightarrow> byte \<Rightarrow> bool" where
  "utf8_overlong byte_count first_byte b1 =
     (if byte_count = 2 then first_byte AND 0x1E = 0
      else if byte_count = 3 then first_byte = 0xE0 \<and> b1 AND 0x20 = 0
      else if byte_count = 4 then first_byte = 0xF0 \<and> b1 AND 0x30 = 0
      else False)"

definition utf8_codepoint3 :: "byte \<Rightarrow> byte \<Rightarrow> byte \<Rightarrow> 32 word" where
  "utf8_codepoint3 first_byte b1 b2 =
     push_bit 12 (ucast (first_byte AND 0x0F)) OR push_bit 6 (ucast (b1 AND 0x3F)) OR
     ucast (b2 AND 0x3F)"

definition utf8_codepoint4 :: "byte \<Rightarrow> byte \<Rightarrow> byte \<Rightarrow> byte \<Rightarrow> 32 word" where
  "utf8_codepoint4 first_byte b1 b2 b3 =
     push_bit 18 (ucast (first_byte AND 0x07)) OR push_bit 12 (ucast (b1 AND 0x3F)) OR
     push_bit 6 (ucast (b2 AND 0x3F)) OR ucast (b3 AND 0x3F)"

function is_valid_utf8_loop :: "bool \<Rightarrow> bytes \<Rightarrow> nat \<Rightarrow> bool" where
  "is_valid_utf8_loop char_signed str i =
     (if i < length str then
        (if char_value char_signed (str ! i) \<le> 0x7F
         then is_valid_utf8_loop char_signed str (i + 1)
         else
           (case utf8_byte_count (str ! i) of
              None \<Rightarrow> False
            | Some byte_count \<Rightarrow>
                (if i + byte_count > length str then False
                 else if \<not> list_all (\<lambda>j. str ! (i + j) AND 0xC0 = 0x80) [1..<byte_count]
                   then False
                 else if utf8_overlong byte_count (str ! i) (str ! (i + 1)) then False
                 else if byte_count = 3 \<and>
                         utf8_codepoint3 (str ! i) (str ! (i + 1)) (str ! (i + 2)) \<ge> 0xD800 \<and>
                         utf8_codepoint3 (str ! i) (str ! (i + 1)) (str ! (i + 2)) \<le> 0xDFFF
                   then False
                 else if byte_count = 4 \<and>
                         utf8_codepoint4 (str ! i) (str ! (i + 1)) (str ! (i + 2))
                           (str ! (i + 3)) > 0x10FFFF
                   then False
                 else is_valid_utf8_loop char_signed str (i + byte_count))))
      else True)"
  by pat_completeness auto
termination
  by (relation "measure (\<lambda>(char_signed, str, i). length str - i)")
     (auto simp: utf8_byte_count_def split: if_splits)

declare is_valid_utf8_loop.simps [simp del]

definition is_valid_utf8 :: "bool \<Rightarrow> bytes \<Rightarrow> bool" where
  "is_valid_utf8 char_signed str = is_valid_utf8_loop char_signed str 0"

section \<open>Status codes, packet types and the client state\<close>

text \<open>
  Modelled from the spec: \<open>status.h\<close> is not among the sources.  The names are the ones
  the sources use; following section 7 of the specification the \<open>ERROR_\<close> codes are
  the failures and \<open>OK\<close>, \<open>STATUS_BUSY\<close>, \<open>STATUS_PENDING\<close> and \<open>STATUS_PASSED\<close> are not.
\<close>

datatype status =
    OK | STATUS_BUSY | STATUS_PENDING | STATUS_PASSED
  | ERROR_NULL_REFERENCE | ERROR_NOT_CONNECTED | ERROR_OUT_OF_MEMORY | ERROR_OUT_OF_RESOURCE
  | ERROR_INVALID_ENCODING | ERROR_MALFORMED_PACKET | ERROR_INVALID_PACKET_SIZE
  | ERROR_UNKNOWN_IDENTIFIER | ERROR_UNEXPECTED_PACKET_TYPE | ERROR_INVALID_PACKET_ID
  | ERROR_INVALID_QOS | ERROR_QOS_NOT_SUPPORTED | ERROR_RETAIN_NOT_SUPPORTED
  | ERROR_INVALID_TOPIC | ERROR_UNSUPPORTED | ERROR_SERVER_DECLINED
  | ERROR_HOST_UNAVAILABLE | ERROR_HW_FAILURE | ERROR_SW_FAILURE | ERROR_INVALID_DATA
  | ERROR_INDEX_OUT_OF_RANGE

fun FAILED :: "status \<Rightarrow> bool" where
  "FAILED OK = False"
| "FAILED STATUS_BUSY = False"
| "FAILED STATUS_PENDING = False"
| "FAILED STATUS_PASSED = False"
| "FAILED _ = True"

definition SUCCESSFUL :: "status \<Rightarrow> bool" where
  "SUCCESSFUL r = (\<not> FAILED r)"

text \<open>
  Modelled from the spec: \<open>mqtt_const.h\<close> is not among the sources.  The packet types
  carry the MQTT 5.0 control packet type values, with \<open>UNKNOWN = 0\<close>; the property
  identifiers are those of the table in section 6.1; the protocol version is 5; the
  pending table has \<open>MQTT_RECEIVE_MAXIMUM = 32\<close> slots.
\<close>

datatype mqtt_packet_type =
    UNKNOWN | CONNECT | CONNACK | PUBLISH | PUBACK | PUBREC | PUBREL | PUBCOMP
  | SUBSCRIBE | SUBACK | UNSUBSCRIBE | UNSUBACK | PINGREQ | PINGRESP | DISCONNECT | AUTH

fun ptype_value :: "mqtt_packet_type \<Rightarrow> nat" where
  "ptype_value UNKNOWN = 0"
| "ptype_value CONNECT = 1"
| "ptype_value CONNACK = 2"
| "ptype_value PUBLISH = 3"
| "ptype_value PUBACK = 4"
| "ptype_value PUBREC = 5"
| "ptype_value PUBREL = 6"
| "ptype_value PUBCOMP = 7"
| "ptype_value SUBSCRIBE = 8"
| "ptype_value SUBACK = 9"
| "ptype_value UNSUBSCRIBE = 10"
| "ptype_value UNSUBACK = 11"
| "ptype_value PINGREQ = 12"
| "ptype_value PINGRESP = 13"
| "ptype_value DISCONNECT = 14"
| "ptype_value AUTH = 15"

definition ptype_of_nibble :: "byte \<Rightarrow> mqtt_packet_type" where
  "ptype_of_nibble n =
     [UNKNOWN, CONNECT, CONNACK, PUBLISH, PUBACK, PUBREC, PUBREL, PUBCOMP,
      SUBSCRIBE, SUBACK, UNSUBSCRIBE, UNSUBACK, PINGREQ, PINGRESP, DISCONNECT, AUTH]
     ! (unat n mod 16)"

definition BIT :: "mqtt_packet_type \<Rightarrow> 16 word" where
  "BIT t = push_bit (ptype_value t) 1"

definition TST :: "16 word \<Rightarrow> 16 word \<Rightarrow> bool" where
  "TST n msk = (n AND msk = msk)"

definition MQTT_RECEIVE_MAXIMUM :: nat where
  "MQTT_RECEIVE_MAXIMUM = 32"

definition MQTT_PROTOCOL_VERSION :: byte where
  "MQTT_PROTOCOL_VERSION = 5"

definition MQTT_USER_PROPERTY_ID :: byte where
  "MQTT_USER_PROPERTY_ID = 0x26"

definition MQTT_REASON_STRING_ID :: byte where
  "MQTT_REASON_STRING_ID = 0x1F"

definition MQTT_REASON_SUCCESS :: byte where
  "MQTT_REASON_SUCCESS = 0"

record mqtt_pbuf =
  pbuf_payload :: bytes
  pbuf_len :: "32 word"

record mqtt_user_property =
  key :: cstring
  val :: cstring

record mqtt_pub_packet =
  pub_topic :: cstring
  pub_payload :: mqtt_blob
  pub_qos :: byte
  pub_retain :: bool
  pub_dup :: bool
  pub_packet_id :: "16 word"

record mqtt_sub_entry =
  sub_qos :: byte
  sub_no_local :: byte
  sub_retain_as_published :: byte
  sub_retain_handling :: byte
  sub_topic :: cstring

text \<open>
  The members of \<open>struct mqtt_client\<close> that the modelled functions use.  A pointer to
  an array together with its element count (\<open>user_properties\<close> and
  \<open>user_properties_count\<close>, \<open>entries\<close> and \<open>entry_count\<close>) is the list of the
  elements: the pointer is null or the count is 0 exactly when the list is empty.
\<close>

record mqtt_will =
  will_delay_interval :: "32 word"
  will_payload_format_indicator :: byte
  will_message_expiry_delay :: "32 word"
  will_topic :: cstring
  will_content_type :: cstring
  will_response_topic :: cstring
  will_correlation_data :: mqtt_blob
  will_payload :: mqtt_blob

record mqtt_connect =
  un_flag :: bool
  pw_flag :: bool
  req_prob_inf :: bool
  req_res_inf :: bool
  will_flag :: bool
  clean_start :: bool
  will_qos :: byte
  recv_max :: "16 word"
  topic_alias_max :: "16 word"
  max_packet_size :: "32 word"
  keep_alive :: "16 word"
  session_expiry_interval :: "32 word"
  will :: mqtt_will
  user :: cstring
  passwd :: cstring
  client_id :: cstring
  connect_user_properties :: "mqtt_user_property list"
  auth_method :: cstring
  auth_data :: mqtt_blob

record mqtt_ack =
  ack_packet_id :: "16 word"
  ack_reason_code :: byte
  ack_reason_string :: cstring
  ack_user_properties :: "mqtt_user_property list"

record mqtt_connack =
  max_qos :: byte
  retain_avail :: bool
  wildcard_sub_avail :: bool
  shared_sub_avail :: bool

record mqtt_publish_props =
  payload_format_indicator :: byte
  message_expiry_interval :: "32 word"
  content_type :: cstring
  response_topic :: cstring
  correlation_data :: mqtt_blob
  topic_alias :: "16 word"
  publish_subscription_identifier :: "32 word"
  publish_user_properties :: "mqtt_user_property list"

record mqtt_subscribe_req =
  entries :: "mqtt_sub_entry list"
  subscribe_packet_id :: "16 word"
  subscribe_subscription_identifier :: "32 word"
  subscribe_user_properties :: "mqtt_user_property list"

record pending_entry =
  packet_id :: "16 word"
  await_packet_type :: mqtt_packet_type

text \<open>
  \<open>inp\<close> is the receive buffer (\<open>inp.payload\<close>, of \<open>inp.len\<close> bytes) and \<open>pin\<close> the
  offset of the read cursor in it.  \<open>sent\<close> is not a member of the C struct: it
  records, in order, the buffers that were handed to \<open>net.send\<close>.
\<close>

record mqtt_client =
  connect :: mqtt_connect
  pubrec :: mqtt_ack
  pubrel :: mqtt_ack
  pubcomp :: mqtt_ack
  connack :: mqtt_connack
  publish :: mqtt_publish_props
  subscribe :: mqtt_subscribe_req
  pending :: "pending_entry list"
  inp :: bytes
  pin :: nat
  connected :: bool
  packet_size :: "32 word"
  expected_ptypes :: "16 word"
  packet_id_count :: "16 word"
  sent :: "mqtt_pbuf list"

text \<open>
  The network interface \<open>stat->net\<close> is injected by \<open>mqtt_assign_net_api\<close>.  Its two
  operations used here are parameters of the model; both may read the client state.
  \<open>char_signed\<close> is the signedness of plain \<open>char\<close> on the target.
  \<open>other_decoder\<close> stands for the decoders of \<open>process_packet\<close> that are not
  modelled (CONNACK, PUBLISH, PUBACK, PUBREL, SUBACK, UNSUBACK, DISCONNECT): every
  statement below holds whatever they do.
\<close>

record mqtt_env =
  char_signed :: bool
  alloc_send_buf :: "mqtt_client \<Rightarrow> 32 word \<Rightarrow> status"
  send :: "mqtt_client \<Rightarrow> mqtt_pbuf \<Rightarrow> status"
  other_decoder :: "mqtt_packet_type \<Rightarrow> byte \<Rightarrow> mqtt_client \<Rightarrow> (status \<times> mqtt_client) option"

section \<open>Packet ID management\<close>

definition free_entry :: pending_entry where
  "free_entry = \<lparr>packet_id = 0, await_packet_type = UNKNOWN\<rparr>"

text \<open>
  Every function of this group is a \<open>for\<close> loop over the slots that acts on the first
  slot passing a test and returns; \<open>find_slot\<close> is the index of that slot.
\<close>

fun find_slot :: "(pending_entry \<Rightarrow> bool) \<Rightarrow> pending_entry list \<Rightarrow> nat option" where
  "find_slot P [] = None"
| "find_slot P (e # es) =
     (if P e then Some 0 else map_option Suc (find_slot P es))"

definition reserve_packet_slot_for_answer ::
  "mqtt_client \<Rightarrow> mqtt_packet_type \<Rightarrow> (status + 16 word) \<times> mqtt_client" where
  "reserve_packet_slot_for_answer stat await =
     (case find_slot (\<lambda>e. packet_id e = 0) (pending stat) of
        Some i \<Rightarrow>
          (let count = packet_id_count stat + 1;
               pid = (if count = 0 then 1 else count)
           in (Inr pid,
               stat\<lparr>packet_id_count := count,
                    pending := (pending stat)
                      [i := \<lparr>packet_id = pid, await_packet_type = await\<rparr>]\<rparr>))
      | None \<Rightarrow> (Inl ERROR_OUT_OF_RESOURCE, stat))"

definition reserve_packet_slot_for_request ::
  "mqtt_client \<Rightarrow> 16 word \<Rightarrow> mqtt_packet_type \<Rightarrow> status \<times> mqtt_client" where
  "reserve_packet_slot_for_request stat pid request =
     (if pid = 0 then (ERROR_INVALID_PACKET_ID, stat)
      else
        (case find_slot (\<lambda>e. packet_id e = 0) (pending stat) of
           Some i \<Rightarrow>
             (OK, stat\<lparr>pending := (pending stat)
                         [i := \<lparr>packet_id = pid, await_packet_type = request\<rparr>]\<rparr>)
         | None \<Rightarrow> (ERROR_OUT_OF_RESOURCE, stat)))"

definition free_packet_slot :: "mqtt_client \<Rightarrow> 16 word \<Rightarrow> status \<times> mqtt_client" where
  "free_packet_slot stat pid =
     (case find_slot (\<lambda>e. packet_id e = pid) (pending stat) of
        Some i \<Rightarrow> (OK, stat\<lparr>pending := (pending stat)[i := free_entry]\<rparr>)
      | None \<Rightarrow> (ERROR_INVALID_PACKET_ID, stat))"

definition get_expected_packet_answer :: "mqtt_client \<Rightarrow> 16 word \<Rightarrow> mqtt_packet_type" where
  "get_expected_packet_answer stat pid =
     (case find_slot (\<lambda>e. packet_id e = pid) (pending stat) of
        Some i \<Rightarrow> await_packet_type (pending stat ! i)
      | None \<Rightarrow> UNKNOWN)"

definition await_for_packet :: "mqtt_client \<Rightarrow> mqtt_packet_type \<Rightarrow> bool" where
  "await_for_packet stat t = (find_slot (\<lambda>e. await_packet_type e = t) (pending stat) \<noteq> None)"

text \<open>
  The loop shared by \<open>process_pubrec\<close> and \<open>mqtt_pubrel\<close>: the first slot holding the
  packet identifier is set to await PUBCOMP.
\<close>

definition await_pubcomp :: "mqtt_client \<Rightarrow> 16 word \<Rightarrow> mqtt_client" where
  "await_pubcomp stat pid =
     (case find_slot (\<lambda>e. packet_id e = pid) (pending stat) of
        Some i \<Rightarrow>
          stat\<lparr>pending := (pending stat)
                 [i := (pending stat ! i)\<lparr>await_packet_type := PUBCOMP\<rparr>]\<rparr>
      | None \<Rightarrow> stat)"

section \<open>Packet size estimations and property generation\<close>

definition write_fixed_header :: "mqtt_packet_type \<Rightarrow> byte \<Rightarrow> 32 word \<Rightarrow> bytes" where
  "write_fixed_header t flags len =
     pack_byte (push_bit 4 (of_nat (ptype_value t) AND 0x0f) OR (flags AND 0x0f)) @
     pack_variable_size len"

definition estimate_fixed_header_size :: "32 word \<Rightarrow> 32 word" where
  "estimate_fixed_header_size len = ucast (get_variable_size_byte_count len) + 1"

text \<open>
  The bytes written by a sequence of pack calls; \<open>None\<close> as soon as one of them is
  undefined.
\<close>

fun pack_seq :: "bytes option list \<Rightarrow> bytes option" where
  "pack_seq [] = Some []"
| "pack_seq (None # rest) = None"
| "pack_seq (Some b # rest) = map_option ((@) b) (pack_seq rest)"

definition pack_user_properties :: "byte \<Rightarrow> mqtt_user_property list \<Rightarrow> bytes option" where
  "pack_user_properties ident props =
     pack_seq (concat (map (\<lambda>p. [Some (pack_byte ident), pack_string (key p),
                                  pack_string (val p)]) props))"

definition estimate_conn_prop_size :: "mqtt_connect \<Rightarrow> 32 word" where
  "estimate_conn_prop_size c =
     (if session_expiry_interval c \<noteq> 0 then 5 else 0) +
     (if recv_max c \<noteq> 0 then 3 else 0) +
     (if max_packet_size c \<noteq> 0 then 5 else 0) +
     (if topic_alias_max c \<noteq> 0 then 3 else 0) +
     (if req_res_inf c then 2 else 0) +
     (if req_prob_inf c then 2 else 0) +
     (if auth_method c \<noteq> None then 1 + STRLEN (auth_method c) else 0) +
     (if blob_data (auth_data c) \<noteq> None \<and> blob_len (auth_data c) \<noteq> 0
      then 1 + ucast (blob_len (auth_data c)) else 0) +
     sum_list (map (\<lambda>p. STRLEN (key p) + (STRLEN (val p) + 1)) (connect_user_properties c))"

definition estimate_will_prop_size :: "mqtt_will \<Rightarrow> 32 word" where
  "estimate_will_prop_size w =
     (if will_delay_interval w \<noteq> 0 then 5 else 0) +
     (if will_payload_format_indicator w \<noteq> 0 then 2 else 0) +
     (if will_message_expiry_delay w \<noteq> 0 then 5 else 0) +
     (if will_content_type w \<noteq> None then STRLEN (will_content_type w) + 1 else 0) +
     (if will_response_topic w \<noteq> None then STRLEN (will_response_topic w) + 1 else 0) +
     (if blob_len (will_correlation_data w) \<noteq> 0
      then BLEN (will_correlation_data w) + 1 else 0)"

definition estimate_publish_prop_size :: "mqtt_publish_props \<Rightarrow> 32 word" where
  "estimate_publish_prop_size pp =
     (if payload_format_indicator pp \<noteq> 0 then 2 else 0) +
     (if message_expiry_interval pp \<noteq> 0 then 5 else 0) +
     (if content_type pp \<noteq> None then 1 + STRLEN (content_type pp) else 0) +
     (if response_topic pp \<noteq> None then 1 + STRLEN (response_topic pp) else 0) +
     (if blob_len (correlation_data pp) \<noteq> 0 then 1 + BLEN (correlation_data pp) else 0) +
     (if topic_alias pp \<noteq> 0 then 3 else 0) +
     (if publish_subscription_identifier pp \<noteq> 0
      then 1 + ucast (get_variable_size_byte_count (publish_subscription_identifier pp))
      else 0) +
     sum_list (map (\<lambda>p. 1 + STRLEN (key p) + STRLEN (val p)) (publish_user_properties pp))"

definition estimate_subscribe_prop_size :: "mqtt_subscribe_req \<Rightarrow> 32 word" where
  "estimate_subscribe_prop_size sr =
     (if subscribe_subscription_identifier sr \<noteq> 0
      then 1 + ucast (get_variable_size_byte_count (subscribe_subscription_identifier sr))
      else 0) +
     sum_list (map (\<lambda>p. 1 + STRLEN (key p) + STRLEN (val p)) (subscribe_user_properties sr))"

definition estimate_pubrel_prop_size :: "mqtt_ack \<Rightarrow> 32 word" where
  "estimate_pubrel_prop_size a =
     (if ack_reason_string a \<noteq> None then 1 + STRLEN (ack_reason_string a) else 0) +
     sum_list (map (\<lambda>p. 1 + STRLEN (key p) + STRLEN (val p)) (ack_user_properties a))"

definition pack_subscribe_props :: "mqtt_subscribe_req \<Rightarrow> bytes option" where
  "pack_subscribe_props sr =
     pack_seq
       [Some (pack_variable_size (estimate_subscribe_prop_size sr)),
        (if subscribe_subscription_identifier sr \<noteq> 0
         then Some (pack_byte 0x0B @
                    pack_variable_size (subscribe_subscription_identifier sr))
         else Some []),
        pack_user_properties MQTT_USER_PROPERTY_ID (subscribe_user_properties sr)]"

definition pack_conn_props :: "mqtt_connect \<Rightarrow> bytes option" where
  "pack_conn_props c =
     pack_seq
       [Some (pack_variable_size (estimate_conn_prop_size c)),
        (if session_expiry_interval c \<noteq> 0
         then Some (pack_byte 0x11 @ pack_dword (session_expiry_interval c)) else Some []),
        (if recv_max c \<noteq> 0
         then Some (pack_byte 0x21 @ pack_word (recv_max c)) else Some []),
        (if max_packet_size c \<noteq> 0
         then Some (pack_byte 0x27 @ pack_dword (max_packet_size c)) else Some []),
        (if topic_alias_max c \<noteq> 0
         then Some (pack_byte 0x22 @ pack_word (topic_alias_max c)) else Some []),
        (if req_res_inf c then Some (pack_byte 0x19 @ pack_byte 1) else Some []),
        (if req_prob_inf c then Some (pack_byte 0x17 @ pack_byte 1) else Some []),
        (if auth_method c \<noteq> None
         then pack_seq [Some (pack_byte 0x15), pack_string (auth_method c)] else Some []),
        (if blob_data (auth_data c) \<noteq> None \<and> blob_len (auth_data c) \<noteq> 0
         then pack_seq [Some (pack_byte 0x16), pack_binary (auth_data c)] else Some [])]"

definition pack_will_props :: "mqtt_will \<Rightarrow> bytes option" where
  "pack_will_props w =
     pack_seq
       [Some (pack_variable_size (estimate_will_prop_size w)),
        (if will_delay_interval w \<noteq> 0
         then Some (pack_byte 0x18 @ pack_dword (will_delay_interval w)) else Some []),
        (if will_payload_format_indicator w \<noteq> 0
         then Some (pack_byte 0x01 @ pack_byte (will_payload_format_indicator w))
         else Some []),
        (if will_message_expiry_delay w \<noteq> 0
         then Some (pack_byte 0x02 @ pack_dword (will_message_expiry_delay w)) else Some []),
        (if will_content_type w \<noteq> None
         then pack_seq [Some (pack_byte 0x03), pack_string (will_content_type w)]
         else Some []),
        (if will_response_topic w \<noteq> None
         then pack_seq [Some (pack_byte 0x08), pack_string (will_response_topic w)]
         else Some []),
        (if blob_len (will_correlation_data w) \<noteq> 0
         then pack_seq [Some (pack_byte 0x09), pack_binary (will_correlation_data w)]
         else Some [])]"

definition pack_publish_props :: "mqtt_publish_props \<Rightarrow> bytes option" where
  "pack_publish_props pp =
     pack_seq
       [Some (pack_variable_size (estimate_publish_prop_size pp)),
        (if payload_format_indicator pp \<noteq> 0
         then Some (pack_byte 0x01 @ pack_byte (payload_format_indicator pp)) else Some []),
        (if message_expiry_interval pp \<noteq> 0
         then Some (pack_byte 0x02 @ pack_dword (message_expiry_interval pp)) else Some []),
        (if content_type pp \<noteq> None
         then pack_seq [Some (pack_byte 0x03), pack_string (content_type pp)] else Some []),
        (if response_topic pp \<noteq> None
         then pack_seq [Some (pack_byte 0x08), pack_string (response_topic pp)]
         else Some []),
        (if blob_len (correlation_data pp) \<noteq> 0
         then pack_seq [Some (pack_byte 0x09), pack_binary (correlation_data pp)]
         else Some []),
        (if topic_alias pp \<noteq> 0
         then Some (pack_byte 0x23 @ pack_word (topic_alias pp)) else Some []),
        (if publish_subscription_identifier pp \<noteq> 0
         then Some (pack_byte 0x0B @
                    pack_variable_size (publish_subscription_identifier pp))
         else Some []),
        pack_user_properties MQTT_USER_PROPERTY_ID (publish_user_properties pp)]"

definition pack_pubrel_props :: "mqtt_ack \<Rightarrow> bytes option" where
  "pack_pubrel_props a =
     pack_seq
       [Some (pack_variable_size (estimate_pubrel_prop_size a)),
        (if ack_reason_string a \<noteq> None
         then pack_seq [Some (pack_byte MQTT_REASON_STRING_ID),
                        pack_string (ack_reason_string a)]
         else Some []),
        pack_user_properties MQTT_USER_PROPERTY_ID (ack_user_properties a)]"

section \<open>Validity checks\<close>

text \<open>
  The recurring test \<open>s && !is_valid_utf8(s, strlen(s))\<close>.
\<close>

definition invalid_utf8 :: "mqtt_env \<Rightarrow> cstring \<Rightarrow> bool" where
  "invalid_utf8 env s =
     (case s of None \<Rightarrow> False | Some b \<Rightarrow> \<not> is_valid_utf8 (char_signed env) b)"

definition invalid_user_properties :: "mqtt_env \<Rightarrow> mqtt_user_property list \<Rightarrow> bool" where
  "invalid_user_properties env props =
     list_ex (\<lambda>p. invalid_utf8 env (key p) \<or> invalid_utf8 env (val p)) props"

definition validate_publish_utf8_strings ::
  "mqtt_env \<Rightarrow> mqtt_client \<Rightarrow> mqtt_pub_packet \<Rightarrow> status" where
  "validate_publish_utf8_strings env stat msg =
     (if pub_topic msg = None \<or> invalid_utf8 env (pub_topic msg) then ERROR_INVALID_ENCODING
      else if invalid_utf8 env (content_type (publish stat)) then ERROR_INVALID_ENCODING
      else if invalid_utf8 env (response_topic (publish stat)) then ERROR_INVALID_ENCODING
      else if invalid_user_properties env (publish_user_properties (publish stat))
        then ERROR_INVALID_ENCODING
      else OK)"

definition validate_subscribe_utf8_strings :: "mqtt_env \<Rightarrow> mqtt_client \<Rightarrow> status" where
  "validate_subscribe_utf8_strings env stat =
     (if list_ex (\<lambda>e. invalid_utf8 env (sub_topic e)) (entries (subscribe stat))
        then ERROR_INVALID_ENCODING
      else if invalid_user_properties env (subscribe_user_properties (subscribe stat))
        then ERROR_INVALID_ENCODING
      else OK)"

definition validate_pubrel_utf8_strings :: "mqtt_env \<Rightarrow> mqtt_client \<Rightarrow> status" where
  "validate_pubrel_utf8_strings env stat =
     (if invalid_utf8 env (ack_reason_string (pubrel stat)) then ERROR_INVALID_ENCODING
      else if invalid_user_properties env (ack_user_properties (pubrel stat))
        then ERROR_INVALID_ENCODING
      else OK)"

section \<open>Packet generation\<close>

text \<open>
  Each builder runs twice: with \<open>stat->pout = NULL\<close> it only computes
  \<open>stat->packet_size\<close>, with a buffer it also writes.  A builder here returns the
  bytes it writes (\<open>Some []\<close> when \<open>pout\<close> is null) and the packet size it stores.
\<close>

definition make_connect :: "mqtt_connect \<Rightarrow> bool \<Rightarrow> bytes option \<times> 32 word" where
  "make_connect c pout =
     (let flags0 = (push_bit 2 (will_qos c AND 0x03) :: byte);
          flags1 = (if clean_start c then flags0 OR push_bit 1 1 else flags0);
          flags2 = (if will_flag c then flags1 OR push_bit 2 1 else flags1);
          flags3 = (if pw_flag c then flags2 OR push_bit 6 1 else flags2);
          flags = (if un_flag c then flags3 OR push_bit 7 1 else flags3);
          plen = (ucast (estimate_conn_prop_size c) :: byte);
          rsize0 = 10 + ucast plen + STRLEN (client_id c) +
                   ucast (get_variable_size_byte_count (ucast plen));
          wlen = (ucast (estimate_will_prop_size (will c)) :: byte);
          rsize1 = (if will_flag c
                    then rsize0 + (ucast wlen + STRLEN (will_topic (will c)) +
                           BLEN (will_payload (will c)) +
                           ucast (get_variable_size_byte_count (ucast wlen)))
                    else rsize0);
          rsize2 = (if un_flag c then rsize1 + STRLEN (user c) else rsize1);
          rsize = (if pw_flag c then rsize2 + STRLEN (passwd c) else rsize2)
      in ((if pout then
             pack_seq
               [Some (write_fixed_header CONNECT 0 rsize),
                pack_string (Some [0x4D, 0x51, 0x54, 0x54]),
                Some (pack_byte MQTT_PROTOCOL_VERSION),
                Some (pack_byte flags),
                Some (pack_word (keep_alive c)),
                pack_conn_props c,
                pack_string (client_id c),
                (if will_flag c then
                   pack_seq
                     [pack_will_props (will c),
                      pack_string (will_topic (will c)),
                      pack_binary (will_payload (will c)),
                      (if un_flag c then pack_string (user c) else Some []),
                      (if pw_flag c then pack_string (passwd c) else Some [])]
                 else Some [])]
           else Some []),
          rsize + estimate_fixed_header_size rsize))"

definition make_publish ::
  "mqtt_publish_props \<Rightarrow> mqtt_pub_packet \<Rightarrow> bool \<Rightarrow> bytes option \<times> 32 word" where
  "make_publish pp msg pout =
     (let flags0 = (if pub_dup msg then push_bit 3 1 else 0 :: byte);
          flags1 = (if pub_retain msg then flags0 OR push_bit 0 1 else flags0);
          flags = flags1 OR push_bit 1 (pub_qos msg AND 0x03);
          prop_size = estimate_publish_prop_size pp;
          rsize0 = STRLEN (pub_topic msg) +
                   ucast (get_variable_size_byte_count prop_size) + prop_size;
          rsize1 = (if pub_qos msg > 0 then rsize0 + 2 else rsize0);
          rsize = rsize1 + ucast (blob_len (pub_payload msg))
      in ((if pout then
             pack_seq
               [Some (write_fixed_header PUBLISH flags rsize),
                pack_string (pub_topic msg),
                (if pub_qos msg > 0 then Some (pack_word (pub_packet_id msg)) else Some []),
                pack_publish_props pp,
                (case blob_data (pub_payload msg) of
                   None \<Rightarrow> Some []
                 | Some d \<Rightarrow>
                     (if blob_len (pub_payload msg) > 0 then
                        (if unat (blob_len (pub_payload msg)) \<le> length d
                         then Some (take (unat (blob_len (pub_payload msg))) d)
                         else None)
                      else Some []))]
           else Some []),
          rsize + estimate_fixed_header_size rsize))"

definition subscribe_options :: "mqtt_sub_entry \<Rightarrow> byte" where
  "subscribe_options e =
     (let o0 = sub_qos e AND 0x03;
          o1 = (if sub_no_local e \<noteq> 0 then o0 OR 0x04 else o0);
          o2 = (if sub_retain_as_published e \<noteq> 0 then o1 OR 0x08 else o1)
      in o2 OR push_bit 4 (sub_retain_handling e AND 0x03))"

definition make_subscribe :: "mqtt_subscribe_req \<Rightarrow> bool \<Rightarrow> bytes option \<times> 32 word" where
  "make_subscribe sr pout =
     (let prop_size = estimate_subscribe_prop_size sr;
          rsize = 2 + ucast (get_variable_size_byte_count prop_size) + prop_size +
                  sum_list (map (\<lambda>e. STRLEN (sub_topic e) + 1) (entries sr))
      in ((if pout then
             pack_seq
               [Some (write_fixed_header SUBSCRIBE 0x02 rsize),
                Some (pack_word (subscribe_packet_id sr)),
                pack_subscribe_props sr,
                pack_seq (concat (map (\<lambda>e. [pack_string (sub_topic e),
                                              Some (pack_byte (subscribe_options e))])
                                   (entries sr)))]
           else Some []),
          rsize + estimate_fixed_header_size rsize))"

definition make_pingreq :: "bool \<Rightarrow> bytes option \<times> 32 word" where
  "make_pingreq pout =
     (let rsize = 0
      in ((if pout then Some (write_fixed_header PINGREQ 0 rsize) else Some []),
          rsize + estimate_fixed_header_size rsize))"

definition make_pubrel :: "mqtt_ack \<Rightarrow> bool \<Rightarrow> bytes option \<times> 32 word" where
  "make_pubrel a pout =
     (let prop_size = estimate_pubrel_prop_size a;
          rsize = 2 + 1 +
                  (if prop_size > 0
                   then ucast (get_variable_size_byte_count prop_size) + prop_size
                   else 1)
      in ((if pout then
             pack_seq
               [Some (write_fixed_header PUBREL 0x02 rsize),
                Some (pack_word (ack_packet_id a)),
                Some (pack_byte (ack_reason_code a)),
                pack_pubrel_props a]
           else Some []),
          rsize + estimate_fixed_header_size rsize))"

section \<open>API functions\<close>

text \<open>
  The functions take the client and the message by value, so the null checks of the
  pointer arguments (\<open>ERROR_NULL_REFERENCE\<close>) have no counterpart.  A result \<open>None\<close>
  means that the C code has left defined behaviour (a read outside a buffer or
  \<open>strlen\<close> of a null pointer).
\<close>

definition mqtt_create_client :: mqtt_client where
  "mqtt_create_client =
     (let blob0 = \<lparr>blob_data = None, blob_len = 0\<rparr>;
          ack0 = \<lparr>ack_packet_id = 0, ack_reason_code = 0, ack_reason_string = None,
                  ack_user_properties = []\<rparr>
      in \<lparr>connect =
            \<lparr>un_flag = False, pw_flag = False, req_prob_inf = False, req_res_inf = False,
             will_flag = False, clean_start = False, will_qos = 0, recv_max = 0,
             topic_alias_max = 0, max_packet_size = 0, keep_alive = 0,
             session_expiry_interval = 0,
             will = \<lparr>will_delay_interval = 0, will_payload_format_indicator = 0,
                     will_message_expiry_delay = 0, will_topic = None,
                     will_content_type = None, will_response_topic = None,
                     will_correlation_data = blob0, will_payload = blob0\<rparr>,
             user = None, passwd = None, client_id = None, connect_user_properties = [],
             auth_method = None, auth_data = blob0\<rparr>,
          pubrec = ack0, pubrel = ack0, pubcomp = ack0,
          connack = \<lparr>max_qos = 0, retain_avail = False, wildcard_sub_avail = False,
                      shared_sub_avail = False\<rparr>,
          publish = \<lparr>payload_format_indicator = 0, message_expiry_interval = 0,
                      content_type = None, response_topic = None, correlation_data = blob0,
                      topic_alias = 0, publish_subscription_identifier = 0,
                      publish_user_properties = []\<rparr>,
          subscribe = \<lparr>entries = [], subscribe_packet_id = 0,
                        subscribe_subscription_identifier = 0,
                        subscribe_user_properties = []\<rparr>,
          pending = replicate MQTT_RECEIVE_MAXIMUM free_entry,
          inp = [], pin = 0, connected = False, packet_size = 0,
          expected_ptypes = BIT PINGREQ, packet_id_count = 0, sent = []\<rparr>)"

text \<open>
  \<open>strstr(topic, "+") || strstr(topic, "#")\<close>, for a topic that is not null where
  the test is reached.
\<close>

definition has_wildcard :: "cstring \<Rightarrow> bool" where
  "has_wildcard topic =
     (case topic of None \<Rightarrow> False | Some t \<Rightarrow> 0x2B \<in> set t \<or> 0x23 \<in> set t)"

definition mqtt_publish ::
  "mqtt_env \<Rightarrow> mqtt_client \<Rightarrow> mqtt_pub_packet \<Rightarrow>
     (status \<times> mqtt_client \<times> mqtt_pub_packet) option" where
  "mqtt_publish env stat msg =
     (if \<not> connected stat then Some (ERROR_NOT_CONNECTED, stat, msg)
      else if FAILED (validate_publish_utf8_strings env stat msg)
        then Some (validate_publish_utf8_strings env stat msg, stat, msg)
      else if pub_qos msg > 2 then Some (ERROR_INVALID_QOS, stat, msg)
      else if pub_qos msg > max_qos (connack stat) then Some (ERROR_QOS_NOT_SUPPORTED, stat, msg)
      else if pub_retain msg \<and> \<not> retain_avail (connack stat)
        then Some (ERROR_RETAIN_NOT_SUPPORTED, stat, msg)
      else if has_wildcard (pub_topic msg) then Some (ERROR_INVALID_TOPIC, stat, msg)
      else
        (case (if pub_qos msg > 0
               then reserve_packet_slot_for_answer stat
                      (if pub_qos msg = 2 then PUBREC else PUBACK)
               else (Inr (pub_packet_id msg), stat)) of
           (Inl err, stat1) \<Rightarrow> Some (err, stat1, msg)
         | (Inr pid, stat1) \<Rightarrow>
             (let msg1 = msg\<lparr>pub_packet_id := pid\<rparr>;
                  stat2 = stat1\<lparr>packet_size := snd (make_publish (publish stat1) msg1 False)\<rparr>;
                  result = alloc_send_buf env stat2 (packet_size stat2)
              in if FAILED result then Some (result, stat2, msg1)
                 else
                   (case fst (make_publish (publish stat2) msg1 True) of
                      None \<Rightarrow> None
                    | Some written \<Rightarrow>
                        (let outp = \<lparr>pbuf_payload = written, pbuf_len = packet_size stat2\<rparr>;
                             result = send env stat2 outp;
                             stat3 = stat2\<lparr>sent := sent stat2 @ [outp]\<rparr>;
                             stat4 =
                               (if SUCCESSFUL result then
                                  (if pub_qos msg = 1
                                   then stat3\<lparr>expected_ptypes :=
                                               expected_ptypes stat3 OR BIT PUBACK\<rparr>
                                   else if pub_qos msg = 2
                                   then stat3\<lparr>expected_ptypes :=
                                               expected_ptypes stat3 OR BIT PUBREC\<rparr>
                                   else stat3)
                                else stat3)
                         in Some (result, stat4, msg1))))))"

text \<open>
  The loop \<open>Validate subscription entries\<close> of \<open>mqtt_subscribe\<close>: the status of the
  first entry that fails a test, \<open>OK\<close> when none does.
\<close>

fun subscribe_validate_entries :: "mqtt_connack \<Rightarrow> mqtt_sub_entry list \<Rightarrow> status" where
  "subscribe_validate_entries ca [] = OK"
| "subscribe_validate_entries ca (e # es) =
     (case sub_topic e of
        None \<Rightarrow> ERROR_NULL_REFERENCE
      | Some t \<Rightarrow>
          (if sub_qos e > 2 then ERROR_INVALID_QOS
           else if sub_qos e > max_qos ca then ERROR_QOS_NOT_SUPPORTED
           else if has_wildcard (sub_topic e) \<and> \<not> wildcard_sub_avail ca
             then ERROR_UNSUPPORTED
           else if take 7 t = [0x24, 0x73, 0x68, 0x61, 0x72, 0x65, 0x2F] \<and>
                   \<not> shared_sub_avail ca
             then ERROR_UNSUPPORTED
           else if sub_retain_handling e > 2 then ERROR_UNSUPPORTED
           else subscribe_validate_entries ca es))"

definition mqtt_subscribe ::
  "mqtt_env \<Rightarrow> mqtt_client \<Rightarrow> mqtt_sub_entry list \<Rightarrow> (status \<times> mqtt_client) option" where
  "mqtt_subscribe env stat ents =
     (if ents = [] then Some (ERROR_NULL_REFERENCE, stat)
      else if \<not> connected stat then Some (ERROR_NOT_CONNECTED, stat)
      else
        (let stat0 = stat\<lparr>subscribe := (subscribe stat)\<lparr>entries := ents\<rparr>\<rparr>
         in case reserve_packet_slot_for_answer stat0 SUBACK of
              (Inl err, stat1) \<Rightarrow> Some (err, stat1)
            | (Inr pid, stat1) \<Rightarrow>
                (let stat2 = stat1\<lparr>subscribe := (subscribe stat1)\<lparr>subscribe_packet_id := pid\<rparr>\<rparr>
                 in if FAILED (validate_subscribe_utf8_strings env stat2)
                      then Some (validate_subscribe_utf8_strings env stat2, stat2)
                    else if subscribe_validate_entries (connack stat2) ents \<noteq> OK
                      then Some (subscribe_validate_entries (connack stat2) ents, stat2)
                    else
                      (let stat3 = stat2\<lparr>packet_size :=
                                            snd (make_subscribe (subscribe stat2) False)\<rparr>;
                           result = alloc_send_buf env stat3 (packet_size stat3)
                       in if FAILED result then Some (result, stat3)
                          else
                            (case fst (make_subscribe (subscribe stat3) True) of
                               None \<Rightarrow> None
                             | Some written \<Rightarrow>
                                 (let outp = \<lparr>pbuf_payload = written,
                                              pbuf_len = packet_size stat3\<rparr>;
                                      result = send env stat3 outp;
                                      stat4 = stat3\<lparr>sent := sent stat3 @ [outp]\<rparr>
                                  in Some (result,
                                       if SUCCESSFUL result
                                       then stat4\<lparr>expected_ptypes :=
                                                    expected_ptypes stat4 OR BIT SUBACK\<rparr>
                                       else stat4)))))))"

definition mqtt_ping :: "mqtt_env \<Rightarrow> mqtt_client \<Rightarrow> (status \<times> mqtt_client) option" where
  "mqtt_ping env stat =
     (if \<not> connected stat then Some (ERROR_NOT_CONNECTED, stat)
      else
        (let stat1 = stat\<lparr>packet_size := snd (make_pingreq False)\<rparr>;
             result = alloc_send_buf env stat1 (packet_size stat1)
         in if FAILED result then Some (result, stat1)
            else
              (case fst (make_pingreq True) of
                 None \<Rightarrow> None
               | Some written \<Rightarrow>
                   (let outp = \<lparr>pbuf_payload = written, pbuf_len = packet_size stat1\<rparr>;
                        result = send env stat1 outp;
                        stat2 = stat1\<lparr>sent := sent stat1 @ [outp]\<rparr>
                    in Some (result,
                         if SUCCESSFUL result
                         then stat2\<lparr>expected_ptypes := expected_ptypes stat2 OR BIT PINGRESP\<rparr>
                         else stat2)))))"

definition mqtt_pubrel ::
  "mqtt_env \<Rightarrow> mqtt_client \<Rightarrow> 16 word \<Rightarrow> (status \<times> mqtt_client) option" where
  "mqtt_pubrel env stat pid =
     (if \<not> connected stat then Some (ERROR_NOT_CONNECTED, stat)
      else if pid = 0 then Some (ERROR_INVALID_PACKET_ID, stat)
      else if FAILED (validate_pubrel_utf8_strings env stat)
        then Some (validate_pubrel_utf8_strings env stat, stat)
      else
        (let stat0 = stat\<lparr>pubrel := (pubrel stat)\<lparr>ack_packet_id := pid\<rparr>\<rparr>;
             stat1 = (if ack_reason_code (pubrel stat0) = 0
                      then stat0\<lparr>pubrel := (pubrel stat0)\<lparr>ack_reason_code := MQTT_REASON_SUCCESS\<rparr>\<rparr>
                      else stat0);
             stat2 = await_pubcomp stat1 pid;
             stat3 = stat2\<lparr>packet_size := snd (make_pubrel (pubrel stat2) False)\<rparr>;
             result = alloc_send_buf env stat3 (packet_size stat3)
         in if FAILED result then Some (result, stat3)
            else
              (case fst (make_pubrel (pubrel stat3) True) of
                 None \<Rightarrow> None
               | Some written \<Rightarrow>
                   (let outp = \<lparr>pbuf_payload = written, pbuf_len = packet_size stat3\<rparr>;
                        result = send env stat3 outp;
                        stat4 = stat3\<lparr>sent := sent stat3 @ [outp]\<rparr>
                    in Some (result,
                         if SUCCESSFUL result
                         then stat4\<lparr>expected_ptypes := expected_ptypes stat4 OR BIT PUBCOMP\<rparr>
                         else stat4)))))"

section \<open>Packet processing\<close>

text \<open>
  \<open>process_pubrec_properties\<close> and \<open>process_pubcomp_properties\<close> are the same loop
  over the property list, on the \<open>pubrec\<close> and on the \<open>pubcomp\<close> member; the loop is
  written once, on the member.  \<open>prop_len\<close> is a \<open>uint32_t\<close>: its subtractions wrap
  around, and the closing test \<open>prop_len < 0\<close> never holds.  The callback
  \<open>mqtt_user_property\<close> is a weak function that does nothing by default.
\<close>

function process_ack_properties ::
  "bytes \<Rightarrow> 32 word \<Rightarrow> nat \<Rightarrow> mqtt_ack \<Rightarrow> (status \<times> mqtt_ack \<times> nat) option" where
  "process_ack_properties buf prop_len p a =
     (if prop_len > 0 then
        (case unpack_byte buf p of
           None \<Rightarrow> None
         | Some (prop_id, p1) \<Rightarrow>
             (if prop_id = MQTT_REASON_STRING_ID then
                (case unpack_string buf p1 of
                   None \<Rightarrow> None
                 | Some (None, p2) \<Rightarrow> process_ack_properties buf (prop_len - 1 - 2) p2 a
                 | Some (Some rs, p2) \<Rightarrow>
                     process_ack_properties buf (prop_len - 1 - (of_nat (length rs) + 2)) p2
                       (a\<lparr>ack_reason_string := Some rs\<rparr>))
              else if prop_id = MQTT_USER_PROPERTY_ID then
                (case unpack_string buf p1 of
                   None \<Rightarrow> None
                 | Some (k, p2) \<Rightarrow>
                     (case unpack_string buf p2 of
                        None \<Rightarrow> None
                      | Some (v, p3) \<Rightarrow>
                          (case (k, v) of
                             (Some ks, Some vs) \<Rightarrow>
                               process_ack_properties buf
                                 (prop_len - 1 - (of_nat (length ks) + of_nat (length vs) + 4))
                                 p3 a
                           | _ \<Rightarrow> process_ack_properties buf (prop_len - 1 - 4) p3 a)))
              else Some (ERROR_UNKNOWN_IDENTIFIER, a, p1)))
      else Some (OK, a, p))"
  by pat_completeness auto
termination
  by (relation "measure (\<lambda>(buf, prop_len, p, a). length buf - p)")
     (auto simp: unpack_byte_def unpack_word_def unpack_string_def
           split: if_splits option.splits prod.splits)

declare process_ack_properties.simps [simp del]

text \<open>
  The block \<open>Check if there's a reason code and properties\<close> that \<open>process_pubrec\<close>
  and \<open>process_pubcomp\<close> share, on the \<open>pubrec\<close> and on the \<open>pubcomp\<close> member:
  \<open>bytes_consumed < stat->inp.len\<close> is \<open>p < length buf\<close>.
\<close>

definition process_ack_tail ::
  "bytes \<Rightarrow> nat \<Rightarrow> mqtt_ack \<Rightarrow> (status \<times> mqtt_ack \<times> nat) option" where
  "process_ack_tail buf p a =
     (if p < length buf then
        (case unpack_byte buf p of
           None \<Rightarrow> None
         | Some (rc, p1) \<Rightarrow>
             (let a1 = a\<lparr>ack_reason_code := rc\<rparr>
              in if p1 < length buf then
                   (case unpack_variable_size buf p1 of
                      None \<Rightarrow> None
                    | Some (prop_len, p2) \<Rightarrow>
                        (if prop_len > 0 then process_ack_properties buf prop_len p2 a1
                         else Some (OK, a1, p2)))
                 else Some (OK, a1, p1)))
      else Some (OK, a\<lparr>ack_reason_code := 0\<rparr>, p))"

definition ack_cleared :: mqtt_ack where
  "ack_cleared = \<lparr>ack_packet_id = 0, ack_reason_code = 0, ack_reason_string = None,
                  ack_user_properties = []\<rparr>"

definition process_pubrec :: "mqtt_env \<Rightarrow> mqtt_client \<Rightarrow> (status \<times> mqtt_client) option" where
  "process_pubrec env stat =
     (case unpack_word (inp stat) (pin stat) of
        None \<Rightarrow> None
      | Some (pid, p) \<Rightarrow>
          (let stat1 = stat\<lparr>pubrec := ack_cleared\<lparr>ack_packet_id := pid\<rparr>, pin := p\<rparr>
           in if get_expected_packet_answer stat1 pid \<noteq> PUBREC
                then Some (ERROR_UNEXPECTED_PACKET_TYPE, stat1)
              else
                (case process_ack_tail (inp stat1) p (pubrec stat1) of
                   None \<Rightarrow> None
                 | Some (result, a, p') \<Rightarrow>
                     (if FAILED result
                      then Some (result, stat1\<lparr>pubrec := a\<lparr>ack_reason_string := None\<rparr>,
                                               pin := p'\<rparr>)
                      else
                        (let stat2 = await_pubcomp (stat1\<lparr>pubrec := a, pin := p'\<rparr>) pid;
                             stat3 = (if \<not> await_for_packet stat2 PUBREC
                                      then stat2\<lparr>expected_ptypes :=
                                                  expected_ptypes stat2 AND NOT (BIT PUBREC)\<rparr>
                                      else stat2);
                             stat4 = stat3\<lparr>expected_ptypes :=
                                             expected_ptypes stat3 OR BIT PUBCOMP\<rparr>
                         in case mqtt_pubrel env stat4 pid of
                              None \<Rightarrow> None
                            | Some (result, stat5) \<Rightarrow>
                                Some (result,
                                  if FAILED result
                                  then stat5\<lparr>pubrec := (pubrec stat5)\<lparr>ack_reason_string := None\<rparr>\<rparr>
                                  else stat5))))))"

definition process_pubcomp :: "mqtt_env \<Rightarrow> mqtt_client \<Rightarrow> (status \<times> mqtt_client) option" where
  "process_pubcomp env stat =
     (case unpack_word (inp stat) (pin stat) of
        None \<Rightarrow> None
      | Some (pid, p) \<Rightarrow>
          (let stat1 = stat\<lparr>pubcomp := ack_cleared\<lparr>ack_packet_id := pid\<rparr>, pin := p\<rparr>
           in if get_expected_packet_answer stat1 pid \<noteq> PUBCOMP
                then Some (ERROR_UNEXPECTED_PACKET_TYPE, stat1)
              else
                (case process_ack_tail (inp stat1) p (pubcomp stat1) of
                   None \<Rightarrow> None
                 | Some (result, a, p') \<Rightarrow>
                     (if FAILED result
                      then Some (result, stat1\<lparr>pubcomp := a\<lparr>ack_reason_string := None\<rparr>,
                                               pin := p'\<rparr>)
                      else
                        (let stat2 = snd (free_packet_slot (stat1\<lparr>pubcomp := a, pin := p'\<rparr>) pid);
                             stat3 = (if \<not> await_for_packet stat2 PUBCOMP
                                      then stat2\<lparr>expected_ptypes :=
                                                  expected_ptypes stat2 AND NOT (BIT PUBCOMP)\<rparr>
                                      else stat2)
                         in Some (result, stat3))))))"

definition process_packet ::
  "mqtt_env \<Rightarrow> mqtt_client \<Rightarrow> mqtt_packet_type \<Rightarrow> byte \<Rightarrow> (status \<times> mqtt_client) option" where
  "process_packet env stat t flags =
     (case t of
        CONNACK \<Rightarrow> other_decoder env CONNACK flags stat
      | PUBLISH \<Rightarrow> other_decoder env PUBLISH flags stat
      | PUBACK \<Rightarrow> other_decoder env PUBACK flags stat
      | PUBREC \<Rightarrow> process_pubrec env stat
      | PUBREL \<Rightarrow> other_decoder env PUBREL flags stat
      | PUBCOMP \<Rightarrow> process_pubcomp env stat
      | SUBACK \<Rightarrow> other_decoder env SUBACK flags stat
      | UNSUBACK \<Rightarrow> other_decoder env UNSUBACK flags stat
      | DISCONNECT \<Rightarrow> other_decoder env DISCONNECT flags stat
      | PINGREQ \<Rightarrow> mqtt_ping env stat
      | PINGRESP \<Rightarrow> Some (OK, stat)
      | _ \<Rightarrow> Some (OK, stat))"

text \<open>
  \<open>mqtt_process_packet(stat, data, len)\<close>: \<open>data\<close> are the \<open>len\<close> bytes received; a
  null \<open>data\<close> or a zero \<open>len\<close> (\<open>[]\<close>) keeps the receive buffer of the client.
  The size test of the source is
  \<open>remaining_len == stat->inp.len - get_variable_size_byte_count(remaining_len) - 1\<close>;
  it is reached only after two bytes were read from the buffer, and
  \<open>remaining_len\<close> is below \<open>2^32\<close>, so the test is the equation on natural numbers
  below whenever the subtraction does not wrap around, and false when it does.
\<close>

definition mqtt_process_packet ::
  "mqtt_env \<Rightarrow> mqtt_client \<Rightarrow> bytes \<Rightarrow> (status \<times> mqtt_client) option" where
  "mqtt_process_packet env stat data =
     (let stat0 = (if data \<noteq> [] then stat\<lparr>inp := data\<rparr> else stat)
      in case unpack_byte (inp stat0) 0 of
           None \<Rightarrow> None
         | Some (fixed_header, p1) \<Rightarrow>
             (case unpack_variable_size (inp stat0) p1 of
                None \<Rightarrow> None
              | Some (remaining_len, p2) \<Rightarrow>
                  (let t = ptype_of_nibble (drop_bit 4 fixed_header);
                       stat1 = stat0\<lparr>pin := p2\<rparr>
                   in if unat remaining_len +
                         unat (get_variable_size_byte_count remaining_len) + 1 =
                         length (inp stat1)
                      then
                        (if TST (expected_ptypes stat1) (BIT t)
                         then process_packet env stat1 t (fixed_header AND 0x0f)
                         else Some (ERROR_UNEXPECTED_PACKET_TYPE, stat1))
                      else Some (ERROR_INVALID_PACKET_SIZE, stat1))))"

section \<open>Concrete inputs\<close>

text \<open>
  A transport that always succeeds, with plain \<open>char\<close> unsigned or signed.
\<close>

definition net_ok :: "bool \<Rightarrow> mqtt_env" where
  "net_ok sc = \<lparr>char_signed = sc, alloc_send_buf = (\<lambda>stat len. OK),
                 send = (\<lambda>stat buf. OK), other_decoder = (\<lambda>t flags stat. Some (OK, stat))\<rparr>"

text \<open>
  The client after CONNECT and a CONNACK without properties: \<open>process_connack\<close> sets
  the defaults of \<open>connack_default_properties\<close>, the connected flag and the PUBLISH
  and DISCONNECT bits; \<open>mqtt_connect\<close> has set the CONNACK bit.
\<close>

definition connected_client :: mqtt_client where
  "connected_client =
     mqtt_create_client
       \<lparr>connack := \<lparr>max_qos = 2, retain_avail = True, wildcard_sub_avail = True,
                     shared_sub_avail = True\<rparr>,
        connected := True,
        expected_ptypes := BIT PINGREQ OR BIT CONNACK OR BIT DISCONNECT OR BIT PUBLISH\<rparr>"

text \<open>\<open>mqtt_pub_packet("a/b", "hi", 2, qos, false)\<close>.\<close>

definition msg_ab_hi :: "byte \<Rightarrow> mqtt_pub_packet" where
  "msg_ab_hi q =
     \<lparr>pub_topic = Some [0x61, 0x2F, 0x62],
      pub_payload = \<lparr>blob_data = Some [0x68, 0x69], blob_len = 2\<rparr>,
      pub_qos = q, pub_retain = False, pub_dup = False, pub_packet_id = 0\<rparr>"

text \<open>\<open>mqtt_pub_packet(topic, "hi", 2, qos, retain)\<close> for any topic.\<close>

definition msg_hi :: "bytes \<Rightarrow> byte \<Rightarrow> bool \<Rightarrow> mqtt_pub_packet" where
  "msg_hi topic q r =
     \<lparr>pub_topic = Some topic,
      pub_payload = \<lparr>blob_data = Some [0x68, 0x69], blob_len = 2\<rparr>,
      pub_qos = q, pub_retain = r, pub_dup = False, pub_packet_id = 0\<rparr>"

text \<open>The subscription entry \<open>SUB("a/b", 1)\<close> of mqtt.h.\<close>

definition sub_ab :: mqtt_sub_entry where
  "sub_ab = \<lparr>sub_qos = 1, sub_no_local = 0, sub_retain_as_published = 1,
             sub_retain_handling = 0, sub_topic = Some [0x61, 0x2F, 0x62]\<rparr>"

text \<open>
  The client after CONNACK and one QoS 2 publication (identifier 1, awaiting PUBREC),
  and the same client after the PUBREC was answered with PUBREL (awaiting PUBCOMP); the
  bookkeeping of what was sent is left empty.
\<close>

definition qos2_sent :: mqtt_client where
  "qos2_sent =
     connected_client
       \<lparr>pending := \<lparr>packet_id = 1, await_packet_type = PUBREC\<rparr> #
                    replicate (MQTT_RECEIVE_MAXIMUM - 1) free_entry,
        packet_id_count := 1,
        expected_ptypes := expected_ptypes connected_client OR BIT PUBREC\<rparr>"


text \<open>The packets PUBREC and PUBCOMP of scenario S3, for packet identifier 1.\<close>

definition pubrec_1 :: bytes where
  "pubrec_1 = [0x50, 0x03, 0x00, 0x01, 0x00]"

definition pubcomp_1 :: bytes where
  "pubcomp_1 = [0x70, 0x03, 0x00, 0x01, 0x00]"

text \<open>
  The client after CONNACK, after \<open>mqtt_pubrec(client, 1)\<close> has answered an inbound
  QoS 2 PUBLISH that the broker numbered 1 (a slot of identifier 1 awaiting PUBREL), and
  after one QoS 2 publication of its own (identifier 1, awaiting PUBREC).
\<close>

definition qos2_sent_after_inbound :: mqtt_client where
  "qos2_sent_after_inbound =
     connected_client
       \<lparr>pending := \<lparr>packet_id = 1, await_packet_type = PUBREL\<rparr> #
                    \<lparr>packet_id = 1, await_packet_type = PUBREC\<rparr> #
                    replicate (MQTT_RECEIVE_MAXIMUM - 2) free_entry,
        packet_id_count := 1,
        expected_ptypes := expected_ptypes connected_client OR BIT PUBREL OR BIT PUBREC\<rparr>"



text \<open>
  The CONNECT parameters after \<open>mqtt_set_basic_auth(client, "u", "p")\<close> and
  \<open>mqtt_connect(client, 60, 0, true)\<close> with the client identifier \<open>"c"\<close>: no will.
\<close>

definition connect_basic_auth :: mqtt_connect where
  "connect_basic_auth =
     (connect mqtt_create_client)
       \<lparr>un_flag := True, pw_flag := True, user := Some [0x75], passwd := Some [0x70],
        keep_alive := 60, clean_start := True, client_id := Some [0x63], recv_max := 32\<rparr>"

text \<open>The same parameters without credentials and with one byte of authentication data.\<close>

definition connect_auth_data :: mqtt_connect where
  "connect_auth_data =
     (connect mqtt_create_client)
       \<lparr>keep_alive := 60, clean_start := True, client_id := Some [0x63], recv_max := 32,
        auth_method := Some [0x6D], auth_data := \<lparr>blob_data = Some [0x01], blob_len = 1\<rparr>\<rparr>"

section \<open>Notions used in the statements\<close>

text \<open>
  The operations on the pending table, as the API performs them: a reservation for an
  outbound request and for an inbound PUBLISH, the release of a slot, and the advance to
  PUBCOMP at its two call sites: \<open>process_pubrec\<close> advances after it has found
  that the identifier awaits PUBREC, \<open>mqtt_pubrel\<close> after it has rejected identifier 0.
\<close>

datatype table_op =
    Reserve_outbound mqtt_packet_type
  | Reserve_inbound "16 word" mqtt_packet_type
  | Advance_pubrec "16 word"
  | Advance_pubrel "16 word"
  | Release "16 word"

fun apply_op :: "mqtt_client \<Rightarrow> table_op \<Rightarrow> mqtt_client" where
  "apply_op stat (Reserve_outbound t) = snd (reserve_packet_slot_for_answer stat t)"
| "apply_op stat (Reserve_inbound pid t) = snd (reserve_packet_slot_for_request stat pid t)"
| "apply_op stat (Advance_pubrec pid) =
     (if get_expected_packet_answer stat pid = PUBREC then await_pubcomp stat pid else stat)"
| "apply_op stat (Advance_pubrel pid) = (if pid = 0 then stat else await_pubcomp stat pid)"
| "apply_op stat (Release pid) = snd (free_packet_slot stat pid)"

text \<open>
  Inbound packets handed to \<open>mqtt_process_packet\<close> one after the other, in arrival
  order: the statuses returned and the client at the end.
\<close>

fun feed :: "mqtt_env \<Rightarrow> mqtt_client \<Rightarrow> bytes list \<Rightarrow> (status list \<times> mqtt_client) option" where
  "feed env stat [] = Some ([], stat)"
| "feed env stat (d # ds) =
     (case mqtt_process_packet env stat d of
        None \<Rightarrow> None
      | Some (r, stat') \<Rightarrow>
          (case feed env stat' ds of
             None \<Rightarrow> None
           | Some (rs, stat'') \<Rightarrow> Some (r # rs, stat'')))"

definition live_ids :: "mqtt_client \<Rightarrow> 16 word list" where
  "live_ids stat = filter (\<lambda>pid. pid \<noteq> 0) (map packet_id (pending stat))"

definition free_slots :: "mqtt_client \<Rightarrow> nat" where
  "free_slots stat = length (filter (\<lambda>e. packet_id e = 0) (pending stat))"

text \<open>An entry that awaits a packet type carries a packet identifier other than 0.\<close>

definition awaiting_have_id :: "mqtt_client \<Rightarrow> bool" where
  "awaiting_have_id stat =
     list_all (\<lambda>e. await_packet_type e \<noteq> UNKNOWN \<longrightarrow> packet_id e \<noteq> 0) (pending stat)"

text \<open>The payloads handed to \<open>net.send\<close> by the end of a call of \<open>mqtt_publish\<close>.\<close>

definition publish_wire :: "mqtt_env \<Rightarrow> mqtt_client \<Rightarrow> mqtt_pub_packet \<Rightarrow> bytes list option" where
  "publish_wire env stat msg =
     (case mqtt_publish env stat msg of
        None \<Rightarrow> None
      | Some (result, stat', msg') \<Rightarrow> Some (map pbuf_payload (sent stat')))"

text \<open>
  The pre-flight conditions of \<open>mqtt_publish\<close> in the words of the specification:
  the topic or a referenced string property (content type, response topic, key or value
  of a user property) is not valid UTF-8 for the validator; a missing topic counts as
  not valid.
\<close>

definition publish_not_utf8 :: "mqtt_env \<Rightarrow> mqtt_client \<Rightarrow> mqtt_pub_packet \<Rightarrow> bool" where
  "publish_not_utf8 env stat msg =
     (pub_topic msg = None \<or> invalid_utf8 env (pub_topic msg) \<or>
      invalid_utf8 env (content_type (publish stat)) \<or>
      invalid_utf8 env (response_topic (publish stat)) \<or>
      (\<exists>up \<in> set (publish_user_properties (publish stat)).
         invalid_utf8 env (key up) \<or> invalid_utf8 env (val up)))"

definition publish_checks_pass :: "mqtt_env \<Rightarrow> mqtt_client \<Rightarrow> mqtt_pub_packet \<Rightarrow> bool" where
  "publish_checks_pass env stat msg =
     (connected stat \<and> \<not> publish_not_utf8 env stat msg \<and> pub_qos msg \<le> 2 \<and>
      pub_qos msg \<le> max_qos (connack stat) \<and>
      (pub_retain msg \<longrightarrow> retain_avail (connack stat)) \<and>
      \<not> has_wildcard (pub_topic msg))"

definition preflight_errors :: "status set" where
  "preflight_errors =
     {ERROR_NOT_CONNECTED, ERROR_INVALID_QOS, ERROR_QOS_NOT_SUPPORTED,
      ERROR_RETAIN_NOT_SUPPORTED, ERROR_INVALID_TOPIC, ERROR_INVALID_ENCODING}"

text \<open>A transport whose buffer allocation fails.\<close>

definition net_no_memory :: mqtt_env where
  "net_no_memory = (net_ok False)\<lparr>alloc_send_buf := (\<lambda>stat len. ERROR_OUT_OF_MEMORY)\<rparr>"

text \<open>
  Well-formed UTF-8 in the words of RFC 3629, section 4, whose grammar admits neither
  overlong forms, nor the surrogates U+D800 to U+DFFF, nor code points above U+10FFFF:

  \<^verbatim>\<open>
    UTF8-octets = *( UTF8-char )
    UTF8-char   = UTF8-1 / UTF8-2 / UTF8-3 / UTF8-4
    UTF8-1      = %x00-7F
    UTF8-2      = %xC2-DF UTF8-tail
    UTF8-3      = %xE0 %xA0-BF UTF8-tail / %xE1-EC 2( UTF8-tail ) /
                  %xED %x80-9F UTF8-tail / %xEE-EF 2( UTF8-tail )
    UTF8-4      = %xF0 %x90-BF 2( UTF8-tail ) / %xF1-F3 3( UTF8-tail ) /
                  %xF4 %x80-8F 2( UTF8-tail )
    UTF8-tail   = %x80-BF
  \<close>

  \<open>utf8_second3\<close> and \<open>utf8_second4\<close> are the ranges of the second byte after the
  lead byte of a three-byte and of a four-byte form.
\<close>

definition utf8_tail :: "byte \<Rightarrow> bool" where
  "utf8_tail b = (0x80 \<le> b \<and> b \<le> 0xBF)"

definition utf8_second3 :: "byte \<Rightarrow> byte \<Rightarrow> bool" where
  "utf8_second3 b0 b1 =
     (if b0 = 0xE0 then 0xA0 \<le> b1 \<and> b1 \<le> 0xBF
      else if b0 = 0xED then 0x80 \<le> b1 \<and> b1 \<le> 0x9F
      else utf8_tail b1)"

definition utf8_second4 :: "byte \<Rightarrow> byte \<Rightarrow> bool" where
  "utf8_second4 b0 b1 =
     (if b0 = 0xF0 then 0x90 \<le> b1 \<and> b1 \<le> 0xBF
      else if b0 = 0xF4 then 0x80 \<le> b1 \<and> b1 \<le> 0x8F
      else utf8_tail b1)"

function rfc3629_valid :: "bytes \<Rightarrow> bool" where
  "rfc3629_valid bs =
     (case bs of
        [] \<Rightarrow> True
      | b0 # rest \<Rightarrow>
          if b0 \<le> 0x7F then rfc3629_valid rest
          else if 0xC2 \<le> b0 \<and> b0 \<le> 0xDF then
            1 \<le> length rest \<and> utf8_tail (rest ! 0) \<and> rfc3629_valid (drop 1 rest)
          else if 0xE0 \<le> b0 \<and> b0 \<le> 0xEF then
            2 \<le> length rest \<and> utf8_second3 b0 (rest ! 0) \<and> utf8_tail (rest ! 1) \<and>
            rfc3629_valid (drop 2 rest)
          else if 0xF0 \<le> b0 \<and> b0 \<le> 0xF4 then
            3 \<le> length rest \<and> utf8_second4 b0 (rest ! 0) \<and> utf8_tail (rest ! 1) \<and>
            utf8_tail (rest ! 2) \<and> rfc3629_valid (drop 3 rest)
          else False)"
  by pat_completeness auto
termination
  by (relation "measure length") auto

declare rfc3629_valid.simps [simp del]

text \<open>
  The string condition of the pre-flight checks of \<open>mqtt_publish\<close> in the words of
  RFC 3629: the topic is missing, or the topic or a referenced string property is not
  well-formed UTF-8.
\<close>

definition not_rfc3629 :: "cstring \<Rightarrow> bool" where
  "not_rfc3629 s = (case s of None \<Rightarrow> False | Some b \<Rightarrow> \<not> rfc3629_valid b)"

definition publish_not_rfc3629 :: "mqtt_client \<Rightarrow> mqtt_pub_packet \<Rightarrow> bool" where
  "publish_not_rfc3629 stat msg =
     (pub_topic msg = None \<or> not_rfc3629 (pub_topic msg) \<or>
      not_rfc3629 (content_type (publish stat)) \<or>
      not_rfc3629 (response_topic (publish stat)) \<or>
      (\<exists>up \<in> set (publish_user_properties (publish stat)).
         not_rfc3629 (key up) \<or> not_rfc3629 (val up)))"




section \<open>Variable-length integers\<close>

text \<open>
  Claim C1.  The claim asks that decoding the encoding of every \<open>n\<close> up to \<open>2^28 - 1\<close>
  gives \<open>n\<close> back.  The code does not do that: 200 is encoded as the two bytes
  \<open>C8 01\<close>, and \<open>unpack_variable_size\<close> on them reads one byte only and returns 72,
  because its loop condition tests the outer \<open>encoded_byte\<close>, which stays 0.
\<close>

theorem varint_roundtrip_200:
  "pack_variable_size 200 = [0xC8, 0x01] \<and>
   unpack_variable_size (pack_variable_size 200) 0 = Some (72, 1)"
  by code_simp

section \<open>UTF-8 validation\<close>

lemma char_value_signed_le: "char_value True b \<le> 0x7F"
  unfolding char_value_def using sint_lt [of b] by simp

lemma is_valid_utf8_loop_signed: "is_valid_utf8_loop True str i"
proof (induction "length str - i" arbitrary: i)
  case 0
  then show ?case by (simp add: is_valid_utf8_loop.simps)
next
  case (Suc n)
  then have "is_valid_utf8_loop True str (i + 1)" by simp
  then show ?case
    using char_value_signed_le by (subst is_valid_utf8_loop.simps) simp
qed

text \<open>
  Where plain \<open>char\<close> is signed the validator accepts every byte string: each element
  passes the test \<open>str[i] <= 0x7F\<close>.
\<close>

lemma is_valid_utf8_signed_accepts_all: "is_valid_utf8 True str"
  by (simp add: is_valid_utf8_def is_valid_utf8_loop_signed)

text \<open>Where plain \<open>char\<close> is unsigned the encoded surrogate is rejected.\<close>

lemma is_valid_utf8_unsigned_rejects_surrogate: "\<not> is_valid_utf8 False [0xED, 0xA0, 0x80]"
  by code_simp

text \<open>
  Claim C2.  The claim asks that \<open>is_valid_utf8\<close> rejects the encoded surrogate
  \<open>ED A0 80\<close>.  On a target whose plain \<open>char\<close> is signed the code accepts it.
\<close>

theorem is_valid_utf8_signed_accepts_surrogate: "is_valid_utf8 True [0xED, 0xA0, 0x80]"
  by code_simp

section \<open>The validator where plain char is unsigned\<close>

text \<open>
  Where plain \<open>char\<close> is unsigned, \<open>is_valid_utf8\<close> accepts exactly the byte strings
  of the grammar of RFC 3629.  The facts about single bytes are checked on the 256 bytes.
\<close>

lemma byte_cases:
  fixes P :: "byte \<Rightarrow> bool"
  shows "(\<forall>b. P b) \<longleftrightarrow> list_all P (map of_nat [0..<256])"
proof
  assume "\<forall>b. P b"
  then show "list_all P (map of_nat [0..<256])" by (simp add: list_all_iff)
next
  assume a: "list_all P (map of_nat [0..<256])"
  show "\<forall>b. P b"
  proof
    fix b :: byte
    have "unat b < 256" using unsigned_less [of b, where ?'a = nat] by simp
    then have "of_nat (unat b) \<in> set (map of_nat [0..<256] :: byte list)"
      by (metis atLeastLessThan_iff imageI le0 list.set_map set_upt)
    then show "P b" using a by (auto simp: list_all_iff)
  qed
qed

lemma surrogate_range:
  "(0xD800 \<le> x \<and> x \<le> 0xDFFF) \<longleftrightarrow> drop_bit 11 x = 27" for x :: "32 word"
proof -
  have "(0xD800 \<le> x \<and> x \<le> 0xDFFF) \<longleftrightarrow> (55296 \<le> unat x \<and> unat x \<le> 57343)"
    by (simp add: word_le_nat_alt)
  also have "\<dots> \<longleftrightarrow> unat x div 2048 = 27" by arith
  also have "\<dots> \<longleftrightarrow> unat (drop_bit 11 x) = 27"
    by (simp add: drop_bit_eq_div unat_div)
  also have "\<dots> \<longleftrightarrow> drop_bit 11 x = 27"
    by (simp add: word_unat_eq_iff)
  finally show ?thesis .
qed

lemma above_max_range: "(x > 0x10FFFF) \<longleftrightarrow> drop_bit 16 x > 0x10" for x :: "32 word"
proof -
  have "(x > 0x10FFFF) \<longleftrightarrow> (1114111 < unat x)"
    by (simp add: word_less_nat_alt)
  also have "\<dots> \<longleftrightarrow> 16 < unat x div 65536" by arith
  also have "\<dots> \<longleftrightarrow> 16 < unat (drop_bit 16 x)"
    by (simp add: drop_bit_eq_div unat_div)
  also have "\<dots> \<longleftrightarrow> drop_bit 16 x > 0x10"
    by (simp add: word_less_nat_alt)
  finally show ?thesis .
qed

lemma codepoint3_high:
  "drop_bit 11 (utf8_codepoint3 b0 b1 b2) =
   drop_bit 11 (push_bit 12 (ucast (b0 AND 0x0F)) :: 32 word) OR
   drop_bit 11 (push_bit 6 (ucast (b1 AND 0x3F)) :: 32 word) OR
   drop_bit 11 (ucast (b2 AND 0x3F) :: 32 word)"
  by (simp only: utf8_codepoint3_def drop_bit_or)

lemma codepoint4_high:
  "drop_bit 16 (utf8_codepoint4 b0 b1 b2 b3) =
   drop_bit 16 (push_bit 18 (ucast (b0 AND 0x07)) :: 32 word) OR
   drop_bit 16 (push_bit 12 (ucast (b1 AND 0x3F)) :: 32 word) OR
   drop_bit 16 (push_bit 6 (ucast (b2 AND 0x3F)) :: 32 word) OR
   drop_bit 16 (ucast (b3 AND 0x3F) :: 32 word)"
  by (simp only: utf8_codepoint4_def drop_bit_or)

lemma low_bytes_vanish:
  "\<forall>b :: byte. drop_bit 11 (ucast (b AND 0x3F) :: 32 word) = 0 \<and>
               drop_bit 16 (ucast (b AND 0x3F) :: 32 word) = 0 \<and>
               drop_bit 16 (push_bit 6 (ucast (b AND 0x3F)) :: 32 word) = 0"
  unfolding byte_cases by code_simp

lemma second_byte_high:
  "\<forall>b :: byte. utf8_tail b \<longrightarrow>
     drop_bit 11 (push_bit 6 (ucast (b AND 0x3F)) :: 32 word) = (if b \<le> 0x9F then 0 else 1) \<and>
     (drop_bit 16 (push_bit 12 (ucast (b AND 0x3F)) :: 32 word) = 0) = (b \<le> 0x8F) \<and>
     drop_bit 16 (push_bit 12 (ucast (b AND 0x3F)) :: 32 word) \<le> 3 \<and>
     ((b AND 0x20 = 0) = (b \<le> 0x9F)) \<and> ((b AND 0x30 = 0) = (b \<le> 0x8F))"
  unfolding byte_cases by code_simp

lemma lead3_high:
  "\<forall>b :: byte. 0xE0 \<le> b \<and> b \<le> 0xEF \<longrightarrow>
     (drop_bit 11 (push_bit 12 (ucast (b AND 0x0F)) :: 32 word) OR 0 \<noteq> 27) \<and>
     ((drop_bit 11 (push_bit 12 (ucast (b AND 0x0F)) :: 32 word) OR 1 = 27) = (b = 0xED))"
  unfolding byte_cases by code_simp

lemma lead4_high:
  "\<forall>b :: byte. 0xF0 \<le> b \<and> b \<le> 0xF7 \<longrightarrow>
     list_all (\<lambda>c. (drop_bit 16 (push_bit 18 (ucast (b AND 0x07)) :: 32 word) OR c > 0x10) =
                   (b > 0xF4 \<or> (b = 0xF4 \<and> c \<noteq> 0))) [0, 1, 2, 3]"
  unfolding byte_cases by code_simp

lemma small_word_cases: "c \<le> 3 \<Longrightarrow> c \<in> set [0, 1, 2, 3]" for c :: "32 word"
proof -
  assume "c \<le> 3"
  then have "unat c \<le> 3" by (simp add: word_le_nat_alt)
  then have "unat c = 0 \<or> unat c = 1 \<or> unat c = 2 \<or> unat c = 3" by arith
  then have "c = 0 \<or> c = 1 \<or> c = 2 \<or> c = 3"
    by (auto simp: word_unat_eq_iff)
  then show ?thesis by auto
qed

lemma surrogate_iff:
  assumes "0xE0 \<le> b0" "b0 \<le> 0xEF" "utf8_tail b1"
  shows "(0xD800 \<le> utf8_codepoint3 b0 b1 b2 \<and> utf8_codepoint3 b0 b1 b2 \<le> 0xDFFF) \<longleftrightarrow>
         (b0 = 0xED \<and> \<not> b1 \<le> 0x9F)"
  using assms lead3_high [rule_format, of b0] second_byte_high [rule_format, of b1]
  by (auto simp: surrogate_range codepoint3_high low_bytes_vanish [rule_format])

lemma above_max_iff:
  assumes "0xF0 \<le> b0" "b0 \<le> 0xF7" "utf8_tail b1"
  shows "(utf8_codepoint4 b0 b1 b2 b3 > 0x10FFFF) \<longleftrightarrow>
         (b0 > 0xF4 \<or> (b0 = 0xF4 \<and> \<not> b1 \<le> 0x8F))"
proof -
  let ?c = "drop_bit 16 (push_bit 12 (ucast (b1 AND 0x3F)) :: 32 word)"
  from second_byte_high [rule_format, OF assms(3)]
  have c3: "?c \<le> 3" and c0: "(?c = 0) = (b1 \<le> 0x8F)" by simp_all
  have "list_all (\<lambda>c. (drop_bit 16 (push_bit 18 (ucast (b0 AND 0x07)) :: 32 word) OR c > 0x10) =
                   (b0 > 0xF4 \<or> (b0 = 0xF4 \<and> c \<noteq> 0))) [0, 1, 2, 3]"
    using lead4_high assms(1,2) by blast
  with small_word_cases [OF c3]
  have "(drop_bit 16 (push_bit 18 (ucast (b0 AND 0x07)) :: 32 word) OR ?c > 0x10) =
        (b0 > 0xF4 \<or> (b0 = 0xF4 \<and> ?c \<noteq> 0))"
    unfolding list_all_iff by blast
  then show ?thesis
    by (simp add: above_max_range codepoint4_high low_bytes_vanish [rule_format] c0)
qed

lemma char_value_unsigned_le: "(char_value False b \<le> 0x7F) = (b \<le> 0x7F)"
  by (simp add: char_value_def word_le_def)

lemma lead_byte_classes:
  "\<forall>b :: byte. \<not> b \<le> 0x7F \<longrightarrow>
     utf8_byte_count b =
       (if 0xC0 \<le> b \<and> b \<le> 0xDF then Some 2
        else if 0xE0 \<le> b \<and> b \<le> 0xEF then Some 3
        else if 0xF0 \<le> b \<and> b \<le> 0xF7 then Some 4
        else None)"
  unfolding byte_cases by code_simp

lemma two_byte_overlong:
  "\<forall>b :: byte. 0xC0 \<le> b \<and> b \<le> 0xDF \<longrightarrow> (b AND 0x1E = 0) = (\<not> 0xC2 \<le> b)"
  unfolding byte_cases by code_simp

lemma continuation_byte: "\<forall>b :: byte. (b AND 0xC0 = 0x80) = utf8_tail b"
  unfolding byte_cases by code_simp

lemma second_byte_order:
  "\<forall>b :: byte. (0xA0 \<le> b) = (\<not> b \<le> 0x9F) \<and> (0x90 \<le> b) = (\<not> b \<le> 0x8F) \<and>
               (b \<le> 0x8F \<longrightarrow> b \<le> 0x9F) \<and> (b \<le> 0x9F \<longrightarrow> b \<le> 0xBF)"
  unfolding byte_cases by code_simp

lemma three_byte_ok:
  assumes "0xE0 \<le> b0" "b0 \<le> 0xEF" "utf8_tail b1"
  shows "(\<not> utf8_overlong 3 b0 b1 \<and>
          \<not> (0xD800 \<le> utf8_codepoint3 b0 b1 b2 \<and> utf8_codepoint3 b0 b1 b2 \<le> 0xDFFF)) =
         utf8_second3 b0 b1"
proof -
  from second_byte_high [rule_format, OF assms(3)]
  have a: "(b1 AND 0x20 = 0) = (b1 \<le> 0x9F)" by simp
  from assms(3) have t: "0x80 \<le> b1" "b1 \<le> 0xBF" by (simp_all add: utf8_tail_def)
  from second_byte_order [rule_format, of b1]
  have o: "(0xA0 \<le> b1) = (\<not> b1 \<le> 0x9F)" by simp
  show ?thesis
    unfolding surrogate_iff [OF assms] utf8_overlong_def utf8_second3_def utf8_tail_def
    using t by (auto simp: a o)
qed

lemma four_byte_ok:
  assumes "0xF0 \<le> b0" "b0 \<le> 0xF7" "utf8_tail b1"
  shows "(\<not> utf8_overlong 4 b0 b1 \<and> \<not> utf8_codepoint4 b0 b1 b2 b3 > 0x10FFFF) =
         (b0 \<le> 0xF4 \<and> utf8_second4 b0 b1)"
proof -
  from second_byte_high [rule_format, OF assms(3)]
  have a: "(b1 AND 0x30 = 0) = (b1 \<le> 0x8F)" by simp
  from assms(3) have t: "0x80 \<le> b1" "b1 \<le> 0xBF" by (simp_all add: utf8_tail_def)
  from second_byte_order [rule_format, of b1]
  have o: "(0x90 \<le> b1) = (\<not> b1 \<le> 0x8F)" by simp
  show ?thesis
    unfolding above_max_iff [OF assms] utf8_overlong_def utf8_second4_def utf8_tail_def
    using t by (auto simp: a o)
qed

lemma second_byte_ranges:
  "\<forall>b :: byte. (0xA0 \<le> b \<and> b \<le> 0xBF \<longrightarrow> utf8_tail b) \<and>
               (0x80 \<le> b \<and> b \<le> 0x9F \<longrightarrow> utf8_tail b) \<and>
               (0x90 \<le> b \<and> b \<le> 0xBF \<longrightarrow> utf8_tail b) \<and>
               (0x80 \<le> b \<and> b \<le> 0x8F \<longrightarrow> utf8_tail b)"
  unfolding byte_cases by code_simp

lemma second3_tail: "utf8_second3 b0 b1 \<Longrightarrow> utf8_tail b1"
  using second_byte_ranges [rule_format, of b1]
  unfolding utf8_second3_def by (simp split: if_splits)

lemma second4_tail: "utf8_second4 b0 b1 \<Longrightarrow> utf8_tail b1"
  using second_byte_ranges [rule_format, of b1]
  unfolding utf8_second4_def by (simp split: if_splits)

lemma upt_small': "[Suc 0..<2] = [1]" "[Suc 0..<3] = [1, 2]" "[Suc 0..<4] = [1, 2, 3]"
  by (simp_all add: upt_rec)

text \<open>One iteration of the loop of the source, for a lead byte above 0x7F.\<close>

lemma is_valid_utf8_loop_step:
  assumes "i < length str" "\<not> str ! i \<le> 0x7F"
  shows "is_valid_utf8_loop False str i =
     (if 0xC0 \<le> str ! i \<and> str ! i \<le> 0xDF then
        i + 2 \<le> length str \<and> 0xC2 \<le> str ! i \<and> utf8_tail (str ! (i + 1)) \<and>
        is_valid_utf8_loop False str (i + 2)
      else if 0xE0 \<le> str ! i \<and> str ! i \<le> 0xEF then
        i + 3 \<le> length str \<and> utf8_second3 (str ! i) (str ! (i + 1)) \<and>
        utf8_tail (str ! (i + 2)) \<and> is_valid_utf8_loop False str (i + 3)
      else if 0xF0 \<le> str ! i \<and> str ! i \<le> 0xF7 then
        i + 4 \<le> length str \<and> str ! i \<le> 0xF4 \<and> utf8_second4 (str ! i) (str ! (i + 1)) \<and>
        utf8_tail (str ! (i + 2)) \<and> utf8_tail (str ! (i + 3)) \<and>
        is_valid_utf8_loop False str (i + 4)
      else False)"
proof -
  let ?b = "str ! i"
  note bc = lead_byte_classes [rule_format, OF assms(2)]
  consider (two) "0xC0 \<le> ?b \<and> ?b \<le> 0xDF"
    | (three) "\<not> (0xC0 \<le> ?b \<and> ?b \<le> 0xDF)" "0xE0 \<le> ?b \<and> ?b \<le> 0xEF"
    | (four) "\<not> (0xC0 \<le> ?b \<and> ?b \<le> 0xDF)" "\<not> (0xE0 \<le> ?b \<and> ?b \<le> 0xEF)"
        "0xF0 \<le> ?b \<and> ?b \<le> 0xF7"
    | (none) "\<not> (0xC0 \<le> ?b \<and> ?b \<le> 0xDF)" "\<not> (0xE0 \<le> ?b \<and> ?b \<le> 0xEF)"
        "\<not> (0xF0 \<le> ?b \<and> ?b \<le> 0xF7)"
    by blast
  then show ?thesis
  proof cases
    case two
    then have c: "utf8_byte_count ?b = Some 2" using bc by simp
    from two have o: "(?b AND 0x1E = 0) = (\<not> 0xC2 \<le> ?b)"
      using two_byte_overlong by blast
    have "is_valid_utf8_loop False str i =
        (i + 2 \<le> length str \<and> 0xC2 \<le> ?b \<and> utf8_tail (str ! (i + 1)) \<and>
         is_valid_utf8_loop False str (i + 2))"
      using assms
      by (subst is_valid_utf8_loop.simps)
         (auto simp: char_value_unsigned_le c upt_small' continuation_byte [rule_format]
            utf8_overlong_def o)
    moreover from two have "(0xC0 \<le> ?b \<and> ?b \<le> 0xDF) = True" by blast
    ultimately show ?thesis by (simp only: if_True)
  next
    case three
    then have c: "utf8_byte_count ?b = Some 3" using bc by simp
    have ok: "utf8_tail (str ! (i + 1)) \<Longrightarrow>
        (\<not> utf8_overlong 3 ?b (str ! (i + 1)) \<and>
         \<not> (0xD800 \<le> utf8_codepoint3 ?b (str ! (i + 1)) (str ! (i + 2)) \<and>
            utf8_codepoint3 ?b (str ! (i + 1)) (str ! (i + 2)) \<le> 0xDFFF)) =
        utf8_second3 ?b (str ! (i + 1))"
      using three three_byte_ok by blast
    have "is_valid_utf8_loop False str i =
        (i + 3 \<le> length str \<and> utf8_second3 ?b (str ! (i + 1)) \<and>
         utf8_tail (str ! (i + 2)) \<and> is_valid_utf8_loop False str (i + 3))"
      using assms ok second3_tail [of ?b "str ! (i + 1)"]
      by (subst is_valid_utf8_loop.simps)
         (auto simp: char_value_unsigned_le c upt_small' continuation_byte [rule_format])
    moreover from three have "(0xC0 \<le> ?b \<and> ?b \<le> 0xDF) = False"
      "(0xE0 \<le> ?b \<and> ?b \<le> 0xEF) = True" by blast+
    ultimately show ?thesis by (simp only: if_True if_False)
  next
    case four
    then have c: "utf8_byte_count ?b = Some 4" using bc by simp
    have ok: "utf8_tail (str ! (i + 1)) \<Longrightarrow>
        (\<not> utf8_overlong 4 ?b (str ! (i + 1)) \<and>
         \<not> utf8_codepoint4 ?b (str ! (i + 1)) (str ! (i + 2)) (str ! (i + 3)) > 0x10FFFF) =
        (?b \<le> 0xF4 \<and> utf8_second4 ?b (str ! (i + 1)))"
      using four four_byte_ok by blast
    have "is_valid_utf8_loop False str i =
        (i + 4 \<le> length str \<and> ?b \<le> 0xF4 \<and> utf8_second4 ?b (str ! (i + 1)) \<and>
         utf8_tail (str ! (i + 2)) \<and> utf8_tail (str ! (i + 3)) \<and>
         is_valid_utf8_loop False str (i + 4))"
      using assms ok second4_tail [of ?b "str ! (i + 1)"]
      by (subst is_valid_utf8_loop.simps)
         (auto simp: char_value_unsigned_le c upt_small' continuation_byte [rule_format])
    moreover from four have "(0xC0 \<le> ?b \<and> ?b \<le> 0xDF) = False"
      "(0xE0 \<le> ?b \<and> ?b \<le> 0xEF) = False" "(0xF0 \<le> ?b \<and> ?b \<le> 0xF7) = True" by blast+
    ultimately show ?thesis by (simp only: if_True if_False)
  next
    case none
    then have c: "utf8_byte_count ?b = None" using bc by simp
    have "is_valid_utf8_loop False str i = False"
      using assms
      by (subst is_valid_utf8_loop.simps) (simp add: char_value_unsigned_le c)
    moreover from none have "(0xC0 \<le> ?b \<and> ?b \<le> 0xDF) = False"
      "(0xE0 \<le> ?b \<and> ?b \<le> 0xEF) = False" "(0xF0 \<le> ?b \<and> ?b \<le> 0xF7) = False" by blast+
    ultimately show ?thesis by (simp only: if_False)
  qed
qed

lemma rfc3629_valid_Cons:
  assumes "\<not> b0 \<le> 0x7F"
  shows "rfc3629_valid (b0 # rest) =
     (if 0xC0 \<le> b0 \<and> b0 \<le> 0xDF then
        1 \<le> length rest \<and> 0xC2 \<le> b0 \<and> utf8_tail (rest ! 0) \<and> rfc3629_valid (drop 1 rest)
      else if 0xE0 \<le> b0 \<and> b0 \<le> 0xEF then
        2 \<le> length rest \<and> utf8_second3 b0 (rest ! 0) \<and> utf8_tail (rest ! 1) \<and>
        rfc3629_valid (drop 2 rest)
      else if 0xF0 \<le> b0 \<and> b0 \<le> 0xF7 then
        3 \<le> length rest \<and> b0 \<le> 0xF4 \<and> utf8_second4 b0 (rest ! 0) \<and> utf8_tail (rest ! 1) \<and>
        utf8_tail (rest ! 2) \<and> rfc3629_valid (drop 3 rest)
      else False)"
proof -
  consider (two) "0xC0 \<le> b0 \<and> b0 \<le> 0xDF"
    | (three) "\<not> (0xC0 \<le> b0 \<and> b0 \<le> 0xDF)" "0xE0 \<le> b0 \<and> b0 \<le> 0xEF"
    | (four) "\<not> (0xC0 \<le> b0 \<and> b0 \<le> 0xDF)" "\<not> (0xE0 \<le> b0 \<and> b0 \<le> 0xEF)"
        "0xF0 \<le> b0 \<and> b0 \<le> 0xF7"
    | (none) "\<not> (0xC0 \<le> b0 \<and> b0 \<le> 0xDF)" "\<not> (0xE0 \<le> b0 \<and> b0 \<le> 0xEF)"
        "\<not> (0xF0 \<le> b0 \<and> b0 \<le> 0xF7)"
    by blast
  then show ?thesis
  proof cases
    case two
    then have c: "(0xC2 \<le> b0 \<and> b0 \<le> 0xDF) = (0xC2 \<le> b0)"
      "(0xE0 \<le> b0 \<and> b0 \<le> 0xEF) = False" "(0xF0 \<le> b0 \<and> b0 \<le> 0xF4) = False"
      by (auto simp: word_le_nat_alt)
    have "rfc3629_valid (b0 # rest) =
        (1 \<le> length rest \<and> 0xC2 \<le> b0 \<and> utf8_tail (rest ! 0) \<and> rfc3629_valid (drop 1 rest))"
      using assms by (subst rfc3629_valid.simps) (auto simp: c)
    moreover from two have "(0xC0 \<le> b0 \<and> b0 \<le> 0xDF) = True" by blast
    ultimately show ?thesis by (simp only: if_True)
  next
    case three
    then have c: "(0xC2 \<le> b0 \<and> b0 \<le> 0xDF) = False"
      "(0xE0 \<le> b0 \<and> b0 \<le> 0xEF) = True"
      by (auto simp: word_le_nat_alt)
    have "rfc3629_valid (b0 # rest) =
        (2 \<le> length rest \<and> utf8_second3 b0 (rest ! 0) \<and> utf8_tail (rest ! 1) \<and>
         rfc3629_valid (drop 2 rest))"
      using assms by (subst rfc3629_valid.simps) (simp add: c)
    moreover from three have "(0xC0 \<le> b0 \<and> b0 \<le> 0xDF) = False"
      "(0xE0 \<le> b0 \<and> b0 \<le> 0xEF) = True" by blast+
    ultimately show ?thesis by (simp only: if_True if_False)
  next
    case four
    then have c: "(0xC2 \<le> b0 \<and> b0 \<le> 0xDF) = False"
      "(0xE0 \<le> b0 \<and> b0 \<le> 0xEF) = False" "(0xF0 \<le> b0 \<and> b0 \<le> 0xF4) = (b0 \<le> 0xF4)"
      by (auto simp: word_le_nat_alt)
    have "rfc3629_valid (b0 # rest) =
        (3 \<le> length rest \<and> b0 \<le> 0xF4 \<and> utf8_second4 b0 (rest ! 0) \<and> utf8_tail (rest ! 1) \<and>
         utf8_tail (rest ! 2) \<and> rfc3629_valid (drop 3 rest))"
      using assms by (subst rfc3629_valid.simps) (auto simp: c)
    moreover from four have "(0xC0 \<le> b0 \<and> b0 \<le> 0xDF) = False"
      "(0xE0 \<le> b0 \<and> b0 \<le> 0xEF) = False" "(0xF0 \<le> b0 \<and> b0 \<le> 0xF7) = True" by blast+
    ultimately show ?thesis by (simp only: if_True if_False)
  next
    case none
    then have c: "(0xC2 \<le> b0 \<and> b0 \<le> 0xDF) = False"
      "(0xE0 \<le> b0 \<and> b0 \<le> 0xEF) = False" "(0xF0 \<le> b0 \<and> b0 \<le> 0xF4) = False"
      by (auto simp: word_le_nat_alt)
    have "rfc3629_valid (b0 # rest) = False"
      using assms by (subst rfc3629_valid.simps) (simp add: c)
    moreover from none have "(0xC0 \<le> b0 \<and> b0 \<le> 0xDF) = False"
      "(0xE0 \<le> b0 \<and> b0 \<le> 0xEF) = False" "(0xF0 \<le> b0 \<and> b0 \<le> 0xF7) = False" by blast+
    ultimately show ?thesis by (simp only: if_False)
  qed
qed

lemma is_valid_utf8_loop_rfc3629:
  "i \<le> length str \<Longrightarrow> is_valid_utf8_loop False str i = rfc3629_valid (drop i str)"
proof (induction "length str - i" arbitrary: i rule: less_induct)
  case less
  show ?case
  proof (cases "i < length str")
    case False
    with less.prems have "i = length str" by simp
    then show ?thesis
      by (subst is_valid_utf8_loop.simps, subst rfc3629_valid.simps) simp
  next
    case True
    let ?rest = "drop (Suc i) str"
    have d: "drop i str = str ! i # ?rest"
      using True by (simp add: Cons_nth_drop_Suc)
    have IH: "\<And>k. 0 < k \<Longrightarrow> i + k \<le> length str \<Longrightarrow>
        is_valid_utf8_loop False str (i + k) = rfc3629_valid (drop (i + k) str)"
      using less.hyps True by simp
    show ?thesis
    proof (cases "str ! i \<le> 0x7F")
      case ascii: True
      have "is_valid_utf8_loop False str i = is_valid_utf8_loop False str (i + 1)"
        using True ascii by (subst is_valid_utf8_loop.simps) (simp add: char_value_unsigned_le)
      also have "\<dots> = rfc3629_valid (drop (i + 1) str)"
        using IH [of 1] True by simp
      also have "\<dots> = rfc3629_valid (drop i str)"
        unfolding d using ascii by (subst (2) rfc3629_valid.simps) simp
      finally show ?thesis .
    next
      case lead: False
      have e: "Suc i + 0 = i + 1" "Suc i + 1 = i + 2" "Suc i + 2 = i + 3"
              "1 + Suc i = i + 2" "2 + Suc i = i + 3" "3 + Suc i = i + 4"
        by arith+
      have n: "?rest ! 0 = str ! (i + 1)" "?rest ! 1 = str ! (i + 2)"
              "?rest ! 2 = str ! (i + 3)"
        using True by (simp_all only: nth_drop e Suc_leI)
      have l: "(1 \<le> length ?rest) = (i + 2 \<le> length str)"
              "(2 \<le> length ?rest) = (i + 3 \<le> length str)"
              "(3 \<le> length ?rest) = (i + 4 \<le> length str)"
        by auto
      have dd: "drop 1 ?rest = drop (i + 2) str" "drop 2 ?rest = drop (i + 3) str"
               "drop 3 ?rest = drop (i + 4) str"
        by (simp_all only: drop_drop e)
      have r2: "i + 2 \<le> length str \<Longrightarrow>
                 is_valid_utf8_loop False str (i + 2) = rfc3629_valid (drop (i + 2) str)"
        by (rule IH) simp_all
      have r3: "i + 3 \<le> length str \<Longrightarrow>
                 is_valid_utf8_loop False str (i + 3) = rfc3629_valid (drop (i + 3) str)"
        by (rule IH) simp_all
      have r4: "i + 4 \<le> length str \<Longrightarrow>
                 is_valid_utf8_loop False str (i + 4) = rfc3629_valid (drop (i + 4) str)"
        by (rule IH) simp_all
      have t2: "(i + 2 \<le> length str \<and> 0xC2 \<le> str ! i \<and> utf8_tail (str ! (i + 1)) \<and>
                 is_valid_utf8_loop False str (i + 2)) =
                (i + 2 \<le> length str \<and> 0xC2 \<le> str ! i \<and> utf8_tail (str ! (i + 1)) \<and>
                 rfc3629_valid (drop (i + 2) str))"
        using r2 by blast
      have t3: "(i + 3 \<le> length str \<and> utf8_second3 (str ! i) (str ! (i + 1)) \<and>
                 utf8_tail (str ! (i + 2)) \<and> is_valid_utf8_loop False str (i + 3)) =
                (i + 3 \<le> length str \<and> utf8_second3 (str ! i) (str ! (i + 1)) \<and>
                 utf8_tail (str ! (i + 2)) \<and> rfc3629_valid (drop (i + 3) str))"
        using r3 by blast
      have t4: "(i + 4 \<le> length str \<and> str ! i \<le> 0xF4 \<and>
                 utf8_second4 (str ! i) (str ! (i + 1)) \<and>
                 utf8_tail (str ! (i + 2)) \<and> utf8_tail (str ! (i + 3)) \<and>
                 is_valid_utf8_loop False str (i + 4)) =
                (i + 4 \<le> length str \<and> str ! i \<le> 0xF4 \<and>
                 utf8_second4 (str ! i) (str ! (i + 1)) \<and>
                 utf8_tail (str ! (i + 2)) \<and> utf8_tail (str ! (i + 3)) \<and>
                 rfc3629_valid (drop (i + 4) str))"
        using r4 by blast
      have "is_valid_utf8_loop False str i = rfc3629_valid (str ! i # ?rest)"
        by (simp only: is_valid_utf8_loop_step [OF True lead] rfc3629_valid_Cons [OF lead]
              l n dd t2 t3 t4)
      then show ?thesis by (simp only: d)
    qed
  qed
qed

lemma is_valid_utf8_unsigned_rfc3629: "is_valid_utf8 False str = rfc3629_valid str"
  by (simp add: is_valid_utf8_def is_valid_utf8_loop_rfc3629)

text \<open>
  The string condition of \<open>mqtt_publish\<close>, as the code tests it, against the words of
  RFC 3629: the two agree where plain \<open>char\<close> is unsigned; where it is signed the code
  only refuses a missing topic.
\<close>

lemma invalid_utf8_unsigned: "\<not> char_signed env \<Longrightarrow> invalid_utf8 env s = not_rfc3629 s"
  by (simp add: invalid_utf8_def not_rfc3629_def is_valid_utf8_unsigned_rfc3629
      split: option.splits)

lemma invalid_utf8_signed: "char_signed env \<Longrightarrow> \<not> invalid_utf8 env s"
  by (simp add: invalid_utf8_def is_valid_utf8_signed_accepts_all split: option.splits)

lemma publish_not_utf8_unsigned:
  "\<not> char_signed env \<Longrightarrow> publish_not_utf8 env stat msg = publish_not_rfc3629 stat msg"
  by (simp add: publish_not_utf8_def publish_not_rfc3629_def invalid_utf8_unsigned)

lemma publish_not_utf8_signed:
  "char_signed env \<Longrightarrow> publish_not_utf8 env stat msg = (pub_topic msg = None)"
  by (simp add: publish_not_utf8_def invalid_utf8_signed)

section \<open>The two passes of the builders\<close>

text \<open>
  Claim C3.  The claim asks that the size computed by the first pass is the number of
  bytes the second pass writes, in particular for \<open>make_connect\<close> with user name and
  password and for the CONNECT properties.  With basic authentication and no will the
  first pass of \<open>make_connect\<close> computes 25 bytes (remaining length 23) and the second
  pass writes 19: user name and password are counted, and written only inside the
  \<open>will_flag\<close> branch.  With one byte of authentication data
  \<open>estimate_conn_prop_size\<close> gives 9 and \<open>pack_conn_props\<close> writes 11 bytes after
  the length byte: the estimator leaves out the two length bytes of the binary data.
\<close>

theorem make_connect_passes_disagree:
  "make_connect connect_basic_auth False = (Some [], 25) \<and>
   make_connect connect_basic_auth True =
     (Some [0x10, 0x17, 0x00, 0x04, 0x4D, 0x51, 0x54, 0x54, 0x05, 0xC2, 0x00, 0x3C,
            0x03, 0x21, 0x00, 0x20, 0x00, 0x01, 0x63], 25) \<and>
   estimate_conn_prop_size connect_auth_data = 9 \<and>
   pack_conn_props connect_auth_data =
     Some [0x09, 0x21, 0x00, 0x20, 0x15, 0x00, 0x01, 0x6D, 0x16, 0x00, 0x01, 0x01]"
  by code_simp

section \<open>Facts about the pending table\<close>

lemma find_slot_Some:
  "find_slot P xs = Some i \<Longrightarrow> i < length xs \<and> P (xs ! i) \<and> (\<forall>j<i. \<not> P (xs ! j))"
proof (induction xs arbitrary: i)
  case Nil
  then show ?case by simp
next
  case (Cons e es)
  show ?case
  proof (cases "P e")
    case True
    with Cons.prems show ?thesis by simp
  next
    case False
    with Cons.prems obtain k where k: "find_slot P es = Some k" "i = Suc k"
      by auto
    from Cons.IH [OF k(1)] False k(2) show ?thesis
      by (auto simp: nth_Cons split: nat.splits)
  qed
qed


lemma filter_update_remove:
  "i < length xs \<Longrightarrow> P (xs ! i) \<Longrightarrow> \<not> P y \<Longrightarrow>
   Suc (length (filter P (xs[i := y]))) = length (filter P xs)"
proof (induction xs arbitrary: i)
  case Nil
  then show ?case by simp
next
  case (Cons e es)
  then show ?case by (cases i) auto
qed

lemma validate_publish_eq:
  "validate_publish_utf8_strings env stat msg =
     (if publish_not_utf8 env stat msg then ERROR_INVALID_ENCODING else OK)"
  by (auto simp: validate_publish_utf8_strings_def publish_not_utf8_def
      invalid_user_properties_def list_ex_iff)

lemma reserve_answer_Inr:
  assumes "reserve_packet_slot_for_answer stat t = (Inr pid, stat1)"
  shows "pid \<noteq> 0 \<and>
         pid = (if packet_id_count stat + 1 = 0 then 1 else packet_id_count stat + 1) \<and>
         (\<exists>i. find_slot (\<lambda>e. packet_id e = 0) (pending stat) = Some i \<and>
              stat1 = stat\<lparr>packet_id_count := packet_id_count stat + 1,
                pending := (pending stat)[i := \<lparr>packet_id = pid, await_packet_type = t\<rparr>]\<rparr>)"
  using assms
  by (auto simp: reserve_packet_slot_for_answer_def Let_def split: option.splits if_splits)

lemma reserve_answer_Inl:
  "reserve_packet_slot_for_answer stat t = (Inl err, stat1) \<Longrightarrow>
     err = ERROR_OUT_OF_RESOURCE \<and> stat1 = stat"
  by (auto simp: reserve_packet_slot_for_answer_def Let_def split: option.splits if_splits)

lemma reserve_answer_effect:
  assumes "reserve_packet_slot_for_answer stat t = (Inr pid, stat1)"
  shows "Suc (free_slots stat1) = free_slots stat \<and>
         \<lparr>packet_id = pid, await_packet_type = t\<rparr> \<in> set (pending stat1) \<and>
         connected stat1 = connected stat \<and> connack stat1 = connack stat \<and>
         publish stat1 = publish stat \<and> subscribe stat1 = subscribe stat \<and>
         sent stat1 = sent stat \<and> expected_ptypes stat1 = expected_ptypes stat"
proof -
  from reserve_answer_Inr [OF assms] obtain i where
    pid: "pid \<noteq> 0" and
    i: "find_slot (\<lambda>e. packet_id e = 0) (pending stat) = Some i" and
    s1: "stat1 = stat\<lparr>packet_id_count := packet_id_count stat + 1,
                pending := (pending stat)[i := \<lparr>packet_id = pid, await_packet_type = t\<rparr>]\<rparr>"
    by blast
  from find_slot_Some [OF i] have il: "i < length (pending stat)"
    and p0: "packet_id (pending stat ! i) = 0" by auto
  have "Suc (length (filter (\<lambda>e. packet_id e = 0)
           ((pending stat)[i := \<lparr>packet_id = pid, await_packet_type = t\<rparr>]))) =
        length (filter (\<lambda>e. packet_id e = 0) (pending stat))"
    by (rule filter_update_remove) (use il p0 pid in auto)
  moreover have "\<lparr>packet_id = pid, await_packet_type = t\<rparr> \<in>
     set ((pending stat)[i := \<lparr>packet_id = pid, await_packet_type = t\<rparr>])"
    using il by (rule set_update_memI)
  ultimately show ?thesis by (simp add: s1 free_slots_def)
qed

lemma list_all_update:
  "list_all P xs \<Longrightarrow> P y \<Longrightarrow> list_all P (xs[i := y])"
  using set_update_subset_insert [of xs i y] by (auto simp: list_all_iff)

lemma apply_op_invariant:
  assumes "awaiting_have_id stat"
  shows "awaiting_have_id (apply_op stat op) \<and>
         length (pending (apply_op stat op)) = length (pending stat)"
proof (cases op)
  case (Reserve_outbound t)
  show ?thesis
  proof (cases "reserve_packet_slot_for_answer stat t")
    case (Pair x stat1)
    show ?thesis
    proof (cases x)
      case (Inl err)
      with Pair reserve_answer_Inl [of stat t err stat1] assms Reserve_outbound
      show ?thesis by simp
    next
      case (Inr pid)
      with Pair reserve_answer_Inr [of stat t pid stat1] obtain i where
        "pid \<noteq> 0" and
        "stat1 = stat\<lparr>packet_id_count := packet_id_count stat + 1,
           pending := (pending stat)[i := \<lparr>packet_id = pid, await_packet_type = t\<rparr>]\<rparr>"
        by blast
      with assms Pair Reserve_outbound show ?thesis
        by (simp add: awaiting_have_id_def list_all_update)
    qed
  qed
next
  case (Reserve_inbound pid t)
  with assms show ?thesis
    by (auto simp: reserve_packet_slot_for_request_def awaiting_have_id_def list_all_update
        split: option.splits)
next
  case (Advance_pubrec pid)
  show ?thesis
  proof (cases "find_slot (\<lambda>e. packet_id e = pid) (pending stat)")
    case None
    with assms Advance_pubrec show ?thesis
      by (simp add: get_expected_packet_answer_def await_pubcomp_def)
  next
    case (Some i)
    from find_slot_Some [OF Some] have il: "i < length (pending stat)" by simp
    with assms have imp: "await_packet_type (pending stat ! i) \<noteq> UNKNOWN \<longrightarrow>
        packet_id (pending stat ! i) \<noteq> 0"
      by (simp add: awaiting_have_id_def list_all_length)
    show ?thesis
    proof (cases "get_expected_packet_answer stat pid = PUBREC")
      case True
      with Some imp have "packet_id (pending stat ! i) \<noteq> 0"
        by (simp add: get_expected_packet_answer_def)
      with assms Some True Advance_pubrec show ?thesis
        by (simp add: await_pubcomp_def awaiting_have_id_def list_all_update)
    next
      case False
      with assms Advance_pubrec show ?thesis by simp
    qed
  qed
next
  case (Advance_pubrel pid)
  show ?thesis
  proof (cases "find_slot (\<lambda>e. packet_id e = pid) (pending stat)")
    case None
    with assms Advance_pubrel show ?thesis by (simp add: await_pubcomp_def)
  next
    case (Some i)
    from find_slot_Some [OF Some] have "packet_id (pending stat ! i) = pid" by simp
    with assms Some Advance_pubrel show ?thesis
      by (simp add: await_pubcomp_def awaiting_have_id_def list_all_update)
  qed
next
  case (Release pid)
  with assms show ?thesis
    by (auto simp: free_packet_slot_def awaiting_have_id_def list_all_update free_entry_def
        split: option.splits)
qed

lemma foldl_apply_op_invariant:
  "awaiting_have_id stat \<Longrightarrow>
   awaiting_have_id (foldl apply_op stat ops) \<and>
   length (pending (foldl apply_op stat ops)) = length (pending stat)"
proof (induction ops arbitrary: stat)
  case Nil
  then show ?case by simp
next
  case (Cons op ops)
  from apply_op_invariant [OF Cons.prems, of op]
  have a: "awaiting_have_id (apply_op stat op)"
    and l: "length (pending (apply_op stat op)) = length (pending stat)" by simp_all
  from Cons.IH [OF a] l show ?case by simp
qed

lemma empty_table_invariant:
  "pending stat = replicate MQTT_RECEIVE_MAXIMUM free_entry \<Longrightarrow> awaiting_have_id stat"
  by (simp add: awaiting_have_id_def list_all_iff free_entry_def)

text \<open>
  Claim C4, as stated: no two live entries carry the same packet identifier after any
  sequence of operations.  The client's first QoS 2 publication mints identifier 1, and
  an inbound QoS 2 PUBLISH that the broker numbers 1 is stored next to it: the two live
  entries carry the same identifier.
\<close>

theorem unique_packet_id_counterexample:
  "\<not> distinct (live_ids (foldl apply_op mqtt_create_client
                            [Reserve_outbound PUBREC, Reserve_inbound 1 PUBREL]))"
  by code_simp

text \<open>
  Claim C4, amended.  Starting from an empty pending table, after any sequence of
  reservations, advances and releases: every entry that awaits a packet type carries a
  packet identifier other than 0 and the table keeps its \<open>MQTT_RECEIVE_MAXIMUM\<close>
  slots; an identifier minted by a reservation for an outbound request is not 0, it is
  1 when the counter stood at 65535 and the counter plus one otherwise; and a
  reservation for an inbound packet with identifier 0 is refused with
  \<open>ERROR_INVALID_PACKET_ID\<close>.  Nothing is stated about two entries with the same
  identifier.
\<close>

theorem packet_id_zero_never_live:
  assumes "pending stat0 = replicate MQTT_RECEIVE_MAXIMUM free_entry"
  shows "awaiting_have_id (foldl apply_op stat0 ops) \<and>
         length (pending (foldl apply_op stat0 ops)) = MQTT_RECEIVE_MAXIMUM \<and>
         (\<forall>t pid stat'.
            reserve_packet_slot_for_answer (foldl apply_op stat0 ops) t = (Inr pid, stat') \<longrightarrow>
              pid \<noteq> 0 \<and>
              (packet_id_count (foldl apply_op stat0 ops) = 65535 \<longrightarrow> pid = 1) \<and>
              (packet_id_count (foldl apply_op stat0 ops) \<noteq> 65535 \<longrightarrow>
                 pid = packet_id_count (foldl apply_op stat0 ops) + 1)) \<and>
         (\<forall>t. reserve_packet_slot_for_request (foldl apply_op stat0 ops) 0 t =
               (ERROR_INVALID_PACKET_ID, foldl apply_op stat0 ops))"
proof -
  let ?s = "foldl apply_op stat0 ops"
  from foldl_apply_op_invariant [OF empty_table_invariant [OF assms], of ops] assms
  have inv: "awaiting_have_id ?s" and len: "length (pending ?s) = MQTT_RECEIVE_MAXIMUM"
    by simp_all
  have w: "(c :: 16 word) + 1 = 0 \<longleftrightarrow> c = 65535" for c
  proof
    assume "c + 1 = 0"
    then have "c = - 1" by (simp add: eq_neg_iff_add_eq_0)
    then show "c = 65535" by simp
  next
    assume "c = 65535"
    then show "c + 1 = 0" by simp
  qed
  have mint: "pid \<noteq> 0 \<and> (packet_id_count ?s = 65535 \<longrightarrow> pid = 1) \<and>
              (packet_id_count ?s \<noteq> 65535 \<longrightarrow> pid = packet_id_count ?s + 1)"
    if "reserve_packet_slot_for_answer ?s t = (Inr pid, stat')" for t pid stat'
    using reserve_answer_Inr [OF that] by (auto simp: w)
  have inb: "reserve_packet_slot_for_request ?s 0 t = (ERROR_INVALID_PACKET_ID, ?s)" for t
    by (simp add: reserve_packet_slot_for_request_def)
  from inv len mint inb show ?thesis by blast
qed

text \<open>
  The theorem for a client whose counter stands at 65535: after an inbound reservation
  and its advance, the next outbound reservation mints identifier 1.
\<close>

theorem packet_id_zero_never_live_witness:
  "pending (mqtt_create_client\<lparr>packet_id_count := 65535\<rparr>) =
     replicate MQTT_RECEIVE_MAXIMUM free_entry \<and>
   awaiting_have_id
     (foldl apply_op (mqtt_create_client\<lparr>packet_id_count := 65535\<rparr>)
        [Reserve_inbound 7 PUBREL, Advance_pubrel 7]) \<and>
   packet_id_count
     (foldl apply_op (mqtt_create_client\<lparr>packet_id_count := 65535\<rparr>)
        [Reserve_inbound 7 PUBREL, Advance_pubrel 7]) = 65535 \<and>
   (\<exists>stat'. reserve_packet_slot_for_answer
      (foldl apply_op (mqtt_create_client\<lparr>packet_id_count := 65535\<rparr>)
         [Reserve_inbound 7 PUBREL, Advance_pubrel 7]) PUBACK = (Inr 1, stat'))"
proof -
  let ?init = "mqtt_create_client\<lparr>packet_id_count := 65535\<rparr>"
  let ?s = "foldl apply_op ?init [Reserve_inbound 7 PUBREL, Advance_pubrel 7]"
  have h: "pending ?init = replicate MQTT_RECEIVE_MAXIMUM free_entry"
    by (simp add: mqtt_create_client_def Let_def)
  have c: "packet_id_count ?s = 65535" by code_simp
  have "fst (reserve_packet_slot_for_answer ?s PUBACK) = Inr 1" by code_simp
  then obtain pid stat' where r: "reserve_packet_slot_for_answer ?s PUBACK = (Inr pid, stat')"
    by (cases "reserve_packet_slot_for_answer ?s PUBACK") auto
  from packet_id_zero_never_live [OF h, of "[Reserve_inbound 7 PUBREL, Advance_pubrel 7]"]
  have inv: "awaiting_have_id ?s"
    and mint: "reserve_packet_slot_for_answer ?s PUBACK = (Inr pid, stat') \<longrightarrow>
                 pid \<noteq> 0 \<and> (packet_id_count ?s = 65535 \<longrightarrow> pid = 1)"
    by blast+
  from mint r c have "pid = 1" by blast
  with r h inv c show ?thesis by blast
qed

text \<open>
  The identifier after the wrap-around: the counter itself is left at 0, so the
  reservation that follows mints 1 again.
\<close>

lemma packet_id_wrap_repeats:
  "live_ids (foldl apply_op (mqtt_create_client\<lparr>packet_id_count := 65535\<rparr>)
               [Reserve_outbound PUBACK, Reserve_outbound PUBACK]) = [1, 1]"
  by code_simp

section \<open>The fixed header check\<close>

text \<open>
  Claim C5.  The claim asks for \<open>ERROR_INVALID_PACKET_SIZE\<close> exactly when the bytes
  in the buffer are not \<open>1 + varint_length_bytes + declared remaining length\<close>.  The
  code compares with the value of \<open>unpack_variable_size\<close>, which decodes the first
  length byte only (the defect behind claim C1).  A well-formed PUBLISH of 203 bytes
  with remaining length 200 (\<open>C8 01\<close>) is rejected with \<open>ERROR_INVALID_PACKET_SIZE\<close>,
  and a buffer of 74 bytes that declares the same remaining length 200 is dispatched to
  the PUBLISH decoder.
\<close>

theorem mqtt_process_packet_two_byte_length:
  "map_option fst
     (mqtt_process_packet (net_ok False) connected_client
        ([0x30, 0xC8, 0x01] @ replicate 200 0)) = Some ERROR_INVALID_PACKET_SIZE \<and>
   mqtt_process_packet (net_ok False) connected_client ([0x30, 0xC8, 0x01] @ replicate 71 0) =
     process_packet (net_ok False)
       (connected_client\<lparr>inp := [0x30, 0xC8, 0x01] @ replicate 71 0, pin := 2\<rparr>) PUBLISH 0"
proof -
  have m: "expected_ptypes connected_client = 0x500C" by code_simp
  have b: "BIT PUBLISH = 8" by code_simp
  have t: "ptype_of_nibble 3 = PUBLISH" by code_simp
  have g: "get_variable_size_byte_count 72 = 1" by code_simp
  have two: "Suc (Suc 0) = 2" by simp
  have "mqtt_process_packet (net_ok False) connected_client
          ([0x30, 0xC8, 0x01] @ replicate 71 0) =
        process_packet (net_ok False)
          (connected_client\<lparr>inp := [0x30, 0xC8, 0x01] @ replicate 71 0,
                            pin := Suc (Suc 0)\<rparr>) PUBLISH 0"
    by (simp add: mqtt_process_packet_def unpack_byte_def unpack_variable_size_def
        unpack_variable_size_loop.simps Let_def m b t g TST_def)
  then have "mqtt_process_packet (net_ok False) connected_client
          ([0x30, 0xC8, 0x01] @ replicate 71 0) =
        process_packet (net_ok False)
          (connected_client\<lparr>inp := [0x30, 0xC8, 0x01] @ replicate 71 0, pin := 2\<rparr>) PUBLISH 0"
    unfolding two .
  moreover have "map_option fst
     (mqtt_process_packet (net_ok False) connected_client
        ([0x30, 0xC8, 0x01] @ replicate 200 0)) = Some ERROR_INVALID_PACKET_SIZE"
    by code_simp
  ultimately show ?thesis by (rule conjI [rotated])
qed

text \<open>
  Scenario S5 of the specification: a header that declares remaining length 20 over a
  buffer of 18 bytes is rejected.
\<close>

lemma mqtt_process_packet_short_buffer:
  "map_option fst
     (mqtt_process_packet (net_ok False) connected_client ([0x30, 0x14] @ replicate 16 0)) =
   Some ERROR_INVALID_PACKET_SIZE"
  by code_simp

section \<open>PINGREQ\<close>



section \<open>Publishing\<close>

lemma topic_ab_valid: "is_valid_utf8 sc [0x61, 0x2F, 0x62]"
proof (cases sc)
  case True
  then show ?thesis by (simp add: is_valid_utf8_signed_accepts_all)
next
  case False
  have "is_valid_utf8 False [0x61, 0x2F, 0x62]" by code_simp
  with False show ?thesis by simp
qed

lemma make_publish_ab_hi_size:
  "snd (make_publish (publish mqtt_create_client) (msg_ab_hi 0) False) = 10"
  by code_simp

lemma make_publish_ab_hi_bytes:
  "fst (make_publish (publish mqtt_create_client) (msg_ab_hi 0) True) =
   Some [0x30, 0x08, 0x00, 0x03, 0x61, 0x2F, 0x62, 0x00, 0x68, 0x69]"
  by code_simp

text \<open>
  Claim C7, as stated: the bytes \<open>30 0A 00 03 61 2F 62 00 68 69\<close>.  They are not what
  the call hands to the transport.
\<close>

theorem publish_qos0_bytes_counterexample:
  "publish_wire (net_ok False) connected_client (msg_ab_hi 0) \<noteq>
   Some [[0x30, 0x0A, 0x00, 0x03, 0x61, 0x2F, 0x62, 0x00, 0x68, 0x69]]"
  by code_simp

text \<open>
  Claim C7, amended: on a connected client without PUBLISH properties, whose send buffer
  is granted, \<open>publish("a/b", "hi", qos=0, retain=false)\<close> hands exactly the ten bytes
  \<open>30 08 00 03 61 2F 62 00 68 69\<close> to the transport: fixed header \<open>30\<close>, remaining
  length 8 (the eight bytes that follow the length byte), topic length 3, the topic,
  property length 0 and the payload.
\<close>

theorem publish_qos0_bytes:
  assumes "connected stat" and "publish stat = publish mqtt_create_client"
    and "\<not> FAILED (alloc_send_buf env (stat\<lparr>packet_size := 10\<rparr>) 10)"
  shows "\<exists>r stat' msg'. mqtt_publish env stat (msg_ab_hi 0) = Some (r, stat', msg') \<and>
     sent stat' = sent stat @
       [\<lparr>pbuf_payload = [0x30, 0x08, 0x00, 0x03, 0x61, 0x2F, 0x62, 0x00, 0x68, 0x69],
         pbuf_len = 10\<rparr>]"
proof -
  have v: "validate_publish_utf8_strings env stat (msg_ab_hi 0) = OK"
    using assms(2) topic_ab_valid
    by (simp add: validate_publish_utf8_strings_def msg_ab_hi_def invalid_utf8_def
        mqtt_create_client_def Let_def invalid_user_properties_def)
  have q: "pub_qos (msg_ab_hi 0) = 0" "\<not> pub_retain (msg_ab_hi 0)"
    "\<not> has_wildcard (pub_topic (msg_ab_hi 0))"
    "(msg_ab_hi 0)\<lparr>pub_packet_id := pub_packet_id (msg_ab_hi 0)\<rparr> = msg_ab_hi 0"
    by (simp_all add: msg_ab_hi_def has_wildcard_def)
  show ?thesis
    using assms v q
    by (simp add: mqtt_publish_def Let_def make_publish_ab_hi_size make_publish_ab_hi_bytes)
qed

text \<open>The theorem at the client after CONNACK, over a transport that always succeeds.\<close>

theorem publish_qos0_bytes_witness:
  "connected connected_client \<and> publish connected_client = publish mqtt_create_client \<and>
   \<not> FAILED (alloc_send_buf (net_ok False) (connected_client\<lparr>packet_size := 10\<rparr>) 10) \<and>
   (\<exists>r stat' msg'.
      mqtt_publish (net_ok False) connected_client (msg_ab_hi 0) = Some (r, stat', msg') \<and>
      sent stat' =
        [\<lparr>pbuf_payload = [0x30, 0x08, 0x00, 0x03, 0x61, 0x2F, 0x62, 0x00, 0x68, 0x69],
          pbuf_len = 10\<rparr>])"
proof -
  have h: "connected connected_client" "publish connected_client = publish mqtt_create_client"
    "\<not> FAILED (alloc_send_buf (net_ok False) (connected_client\<lparr>packet_size := 10\<rparr>) 10)"
    by (simp_all add: connected_client_def net_ok_def)
  have s0: "sent connected_client = []"
    by (simp add: connected_client_def mqtt_create_client_def Let_def)
  from publish_qos0_bytes [OF h] s0 h show ?thesis by simp
qed

text \<open>
  The pre-flight checks of \<open>mqtt_publish\<close>, with the verdict of the code's own
  validator for the strings (\<open>publish_not_utf8\<close>).  \<open>mqtt_publish\<close> returns, with the
  client and the message untouched, \<open>ERROR_NOT_CONNECTED\<close> when the client is not
  connected, and otherwise the error of the first check that fails, in the order of the
  code: \<open>ERROR_INVALID_ENCODING\<close>, \<open>ERROR_INVALID_QOS\<close> (\<open>qos > 2\<close>),
  \<open>ERROR_QOS_NOT_SUPPORTED\<close> (\<open>qos\<close> above the server's \<open>max_qos\<close>),
  \<open>ERROR_RETAIN_NOT_SUPPORTED\<close> (retain requested, not available),
  \<open>ERROR_INVALID_TOPIC\<close> (a \<open>+\<close> or \<open>#\<close> in the topic).  When every check passes,
  the call returns none of these six errors, unless the transport itself answers with
  one of them.
\<close>

lemma mqtt_publish_preflight:
  "(\<not> connected stat \<longrightarrow>
      mqtt_publish env stat msg = Some (ERROR_NOT_CONNECTED, stat, msg)) \<and>
   (connected stat \<and> publish_not_utf8 env stat msg \<longrightarrow>
      mqtt_publish env stat msg = Some (ERROR_INVALID_ENCODING, stat, msg)) \<and>
   (connected stat \<and> \<not> publish_not_utf8 env stat msg \<and> pub_qos msg > 2 \<longrightarrow>
      mqtt_publish env stat msg = Some (ERROR_INVALID_QOS, stat, msg)) \<and>
   (connected stat \<and> \<not> publish_not_utf8 env stat msg \<and> pub_qos msg \<le> 2 \<and>
    pub_qos msg > max_qos (connack stat) \<longrightarrow>
      mqtt_publish env stat msg = Some (ERROR_QOS_NOT_SUPPORTED, stat, msg)) \<and>
   (connected stat \<and> \<not> publish_not_utf8 env stat msg \<and> pub_qos msg \<le> 2 \<and>
    pub_qos msg \<le> max_qos (connack stat) \<and> pub_retain msg \<and> \<not> retain_avail (connack stat) \<longrightarrow>
      mqtt_publish env stat msg = Some (ERROR_RETAIN_NOT_SUPPORTED, stat, msg)) \<and>
   (connected stat \<and> \<not> publish_not_utf8 env stat msg \<and> pub_qos msg \<le> 2 \<and>
    pub_qos msg \<le> max_qos (connack stat) \<and> (pub_retain msg \<longrightarrow> retain_avail (connack stat)) \<and>
    has_wildcard (pub_topic msg) \<longrightarrow>
      mqtt_publish env stat msg = Some (ERROR_INVALID_TOPIC, stat, msg)) \<and>
   (publish_checks_pass env stat msg \<and>
    (\<forall>c n. alloc_send_buf env c n \<notin> preflight_errors) \<and>
    (\<forall>c b. send env c b \<notin> preflight_errors) \<longrightarrow>
      (\<forall>r stat' msg'. mqtt_publish env stat msg = Some (r, stat', msg') \<longrightarrow>
         r \<notin> preflight_errors))"
proof -
  have last: "r \<notin> preflight_errors"
    if ok: "publish_checks_pass env stat msg"
      and al: "\<forall>c n. alloc_send_buf env c n \<notin> preflight_errors"
      and se: "\<forall>c b. send env c b \<notin> preflight_errors"
      and res: "mqtt_publish env stat msg = Some (r, stat', msg')" for r stat' msg'
  proof -
    from ok have n: "connected stat" "\<not> publish_not_utf8 env stat msg"
      "\<not> 2 < pub_qos msg" "\<not> max_qos (connack stat) < pub_qos msg"
      "\<not> (pub_retain msg \<and> \<not> retain_avail (connack stat))"
      "\<not> has_wildcard (pub_topic msg)"
      by (auto simp: publish_checks_pass_def not_less)
    obtain x stat1 where rs: "(if pub_qos msg > 0
               then reserve_packet_slot_for_answer stat
                      (if pub_qos msg = 2 then PUBREC else PUBACK)
               else (Inr (pub_packet_id msg), stat)) = (x, stat1)"
      by (cases "(if pub_qos msg > 0
               then reserve_packet_slot_for_answer stat
                      (if pub_qos msg = 2 then PUBREC else PUBACK)
               else (Inr (pub_packet_id msg), stat))") auto
    have nopre: "ERROR_OUT_OF_RESOURCE \<notin> preflight_errors"
      by (simp add: preflight_errors_def)
    show ?thesis
    proof (cases x)
      case (Inl err)
      with rs have "err = ERROR_OUT_OF_RESOURCE"
        by (auto dest: reserve_answer_Inl split: if_splits)
      with res rs Inl nopre show ?thesis
        by (simp add: mqtt_publish_def validate_publish_eq n)
    next
      case (Inr pid)
      with res rs al se show ?thesis
        by (auto simp: mqtt_publish_def validate_publish_eq n
            Let_def split: if_splits option.splits)
    qed
  qed
  show ?thesis
    apply (intro conjI impI allI)
          apply (simp add: mqtt_publish_def)
         apply (simp add: mqtt_publish_def validate_publish_eq)
        apply (simp add: mqtt_publish_def validate_publish_eq)
       apply (simp add: mqtt_publish_def validate_publish_eq not_less)
      apply (simp add: mqtt_publish_def validate_publish_eq not_less)
     apply (simp add: mqtt_publish_def validate_publish_eq not_less)
    apply (erule conjE)+
    apply (rule last; assumption)
    done
qed


text \<open>
  The lemma at one input for each check (plain \<open>char\<close> unsigned, a transport that
  always succeeds), and at the publication of scenario S1, where every check passes.
\<close>

lemma mqtt_publish_preflight_cases:
  "mqtt_publish (net_ok False) mqtt_create_client (msg_ab_hi 0) =
     Some (ERROR_NOT_CONNECTED, mqtt_create_client, msg_ab_hi 0) \<and>
   mqtt_publish (net_ok False) connected_client (msg_hi [0xED, 0xA0, 0x80] 0 False) =
     Some (ERROR_INVALID_ENCODING, connected_client, msg_hi [0xED, 0xA0, 0x80] 0 False) \<and>
   mqtt_publish (net_ok False) connected_client (msg_ab_hi 3) =
     Some (ERROR_INVALID_QOS, connected_client, msg_ab_hi 3) \<and>
   mqtt_publish (net_ok False)
       (connected_client\<lparr>connack := (connack connected_client)\<lparr>max_qos := 1\<rparr>\<rparr>) (msg_ab_hi 2) =
     Some (ERROR_QOS_NOT_SUPPORTED,
           connected_client\<lparr>connack := (connack connected_client)\<lparr>max_qos := 1\<rparr>\<rparr>, msg_ab_hi 2) \<and>
   mqtt_publish (net_ok False)
       (connected_client\<lparr>connack := (connack connected_client)\<lparr>retain_avail := False\<rparr>\<rparr>)
       (msg_hi [0x61, 0x2F, 0x62] 0 True) =
     Some (ERROR_RETAIN_NOT_SUPPORTED,
           connected_client\<lparr>connack := (connack connected_client)\<lparr>retain_avail := False\<rparr>\<rparr>,
           msg_hi [0x61, 0x2F, 0x62] 0 True) \<and>
   mqtt_publish (net_ok False) connected_client (msg_hi [0x61, 0x2F, 0x2B] 0 False) =
     Some (ERROR_INVALID_TOPIC, connected_client, msg_hi [0x61, 0x2F, 0x2B] 0 False) \<and>
   publish_checks_pass (net_ok False) connected_client (msg_ab_hi 0) \<and>
   (\<exists>stat' msg'. mqtt_publish (net_ok False) connected_client (msg_ab_hi 0) =
      Some (OK, stat', msg')) \<and>
   OK \<notin> preflight_errors"
proof -
  let ?e = "net_ok False"
  let ?q1 = "connected_client\<lparr>connack := (connack connected_client)\<lparr>max_qos := 1\<rparr>\<rparr>"
  let ?nr = "connected_client\<lparr>connack := (connack connected_client)\<lparr>retain_avail := False\<rparr>\<rparr>"
  have 1: "\<not> connected mqtt_create_client" by code_simp
  have 2: "connected connected_client \<and>
           publish_not_utf8 ?e connected_client (msg_hi [0xED, 0xA0, 0x80] 0 False)"
    by code_simp
  have 3: "connected connected_client \<and> \<not> publish_not_utf8 ?e connected_client (msg_ab_hi 3) \<and>
           pub_qos (msg_ab_hi 3) > 2"
    by code_simp
  have 4: "connected ?q1 \<and> \<not> publish_not_utf8 ?e ?q1 (msg_ab_hi 2) \<and>
           pub_qos (msg_ab_hi 2) \<le> 2 \<and> pub_qos (msg_ab_hi 2) > max_qos (connack ?q1)"
    by code_simp
  have 5: "connected ?nr \<and> \<not> publish_not_utf8 ?e ?nr (msg_hi [0x61, 0x2F, 0x62] 0 True) \<and>
           pub_qos (msg_hi [0x61, 0x2F, 0x62] 0 True) \<le> 2 \<and>
           pub_qos (msg_hi [0x61, 0x2F, 0x62] 0 True) \<le> max_qos (connack ?nr) \<and>
           pub_retain (msg_hi [0x61, 0x2F, 0x62] 0 True) \<and> \<not> retain_avail (connack ?nr)"
    by code_simp
  have 6: "connected connected_client \<and>
           \<not> publish_not_utf8 ?e connected_client (msg_hi [0x61, 0x2F, 0x2B] 0 False) \<and>
           pub_qos (msg_hi [0x61, 0x2F, 0x2B] 0 False) \<le> 2 \<and>
           pub_qos (msg_hi [0x61, 0x2F, 0x2B] 0 False) \<le> max_qos (connack connected_client) \<and>
           (pub_retain (msg_hi [0x61, 0x2F, 0x2B] 0 False) \<longrightarrow>
              retain_avail (connack connected_client)) \<and>
           has_wildcard (pub_topic (msg_hi [0x61, 0x2F, 0x2B] 0 False))"
    by code_simp
  have 7: "publish_checks_pass ?e connected_client (msg_ab_hi 0)" by code_simp
  have t: "(\<forall>c n. alloc_send_buf ?e c n \<notin> preflight_errors) \<and>
           (\<forall>c b. send ?e c b \<notin> preflight_errors)"
    by (simp add: net_ok_def preflight_errors_def)
  have "map_option fst (mqtt_publish ?e connected_client (msg_ab_hi 0)) = Some OK"
    by code_simp
  then obtain stat' msg' where r:
    "mqtt_publish ?e connected_client (msg_ab_hi 0) = Some (OK, stat', msg')"
    by auto
  have c1: "mqtt_publish ?e mqtt_create_client (msg_ab_hi 0) =
     Some (ERROR_NOT_CONNECTED, mqtt_create_client, msg_ab_hi 0)"
    using mqtt_publish_preflight [of mqtt_create_client ?e "msg_ab_hi 0"] 1 by blast
  have c2: "mqtt_publish ?e connected_client (msg_hi [0xED, 0xA0, 0x80] 0 False) =
     Some (ERROR_INVALID_ENCODING, connected_client, msg_hi [0xED, 0xA0, 0x80] 0 False)"
    using mqtt_publish_preflight [of connected_client ?e "msg_hi [0xED, 0xA0, 0x80] 0 False"] 2
    by blast
  have c3: "mqtt_publish ?e connected_client (msg_ab_hi 3) =
     Some (ERROR_INVALID_QOS, connected_client, msg_ab_hi 3)"
    using mqtt_publish_preflight [of connected_client ?e "msg_ab_hi 3"] 3 by blast
  have c4: "mqtt_publish ?e ?q1 (msg_ab_hi 2) = Some (ERROR_QOS_NOT_SUPPORTED, ?q1, msg_ab_hi 2)"
    using mqtt_publish_preflight [of ?q1 ?e "msg_ab_hi 2"] 4 by blast
  have c5: "mqtt_publish ?e ?nr (msg_hi [0x61, 0x2F, 0x62] 0 True) =
     Some (ERROR_RETAIN_NOT_SUPPORTED, ?nr, msg_hi [0x61, 0x2F, 0x62] 0 True)"
    using mqtt_publish_preflight [of ?nr ?e "msg_hi [0x61, 0x2F, 0x62] 0 True"] 5 by blast
  have c6: "mqtt_publish ?e connected_client (msg_hi [0x61, 0x2F, 0x2B] 0 False) =
     Some (ERROR_INVALID_TOPIC, connected_client, msg_hi [0x61, 0x2F, 0x2B] 0 False)"
    using mqtt_publish_preflight [of connected_client ?e "msg_hi [0x61, 0x2F, 0x2B] 0 False"] 6
    by blast
  have c7: "OK \<notin> preflight_errors"
    using mqtt_publish_preflight [of connected_client ?e "msg_ab_hi 0"] 7 t r by blast
  from c1 c2 c3 c4 c5 c6 c7 7 r show ?thesis by blast
qed

text \<open>
  Where plain \<open>char\<close> is unsigned, a connected client refuses a publication whose topic
  or string properties are not well-formed UTF-8 in the words of RFC 3629.
\<close>

lemma mqtt_publish_invalid_encoding_unsigned:
  assumes "\<not> char_signed env" and "connected stat" and "publish_not_rfc3629 stat msg"
  shows "mqtt_publish env stat msg = Some (ERROR_INVALID_ENCODING, stat, msg)"
  using assms mqtt_publish_preflight [of stat env msg]
  by (simp add: publish_not_utf8_unsigned)

text \<open>
  Claim C8.  The claim asks for \<open>ERROR_INVALID_ENCODING\<close> when the topic is not valid
  UTF-8.  The topic \<open>ED A0 80\<close> is not well-formed UTF-8: it encodes the surrogate
  U+D800.  Where plain \<open>char\<close> is unsigned \<open>mqtt_publish\<close> refuses it with
  \<open>ERROR_INVALID_ENCODING\<close>; where plain \<open>char\<close> is signed \<open>mqtt_publish\<close> returns
  \<open>OK\<close> and hands the PUBLISH packet \<open>30 08 00 03 ED A0 80 00 68 69\<close> to the
  transport.
\<close>

theorem mqtt_publish_signed_accepts_surrogate:
  "\<not> rfc3629_valid [0xED, 0xA0, 0x80] \<and>
   mqtt_publish (net_ok False) connected_client (msg_hi [0xED, 0xA0, 0x80] 0 False) =
     Some (ERROR_INVALID_ENCODING, connected_client, msg_hi [0xED, 0xA0, 0x80] 0 False) \<and>
   map_option fst
     (mqtt_publish (net_ok True) connected_client (msg_hi [0xED, 0xA0, 0x80] 0 False)) =
     Some OK \<and>
   publish_wire (net_ok True) connected_client (msg_hi [0xED, 0xA0, 0x80] 0 False) =
     Some [[0x30, 0x08, 0x00, 0x03, 0xED, 0xA0, 0x80, 0x00, 0x68, 0x69]]"
proof -
  let ?m = "msg_hi [0xED, 0xA0, 0x80] 0 False"
  have 1: "\<not> rfc3629_valid [0xED, 0xA0, 0x80]" by code_simp
  have h: "\<not> char_signed (net_ok False) \<and> connected connected_client \<and>
           publish_not_rfc3629 connected_client ?m"
    by code_simp
  have 2: "mqtt_publish (net_ok False) connected_client ?m =
             Some (ERROR_INVALID_ENCODING, connected_client, ?m)"
    using mqtt_publish_invalid_encoding_unsigned [of "net_ok False" connected_client ?m] h
    by blast
  have 3: "map_option fst (mqtt_publish (net_ok True) connected_client ?m) = Some OK"
    by code_simp
  have 4: "publish_wire (net_ok True) connected_client ?m =
             Some [[0x30, 0x08, 0x00, 0x03, 0xED, 0xA0, 0x80, 0x00, 0x68, 0x69]]"
    by code_simp
  from 1 2 3 4 show ?thesis by blast
qed

text \<open>
  Claim C9.  When \<open>mqtt_publish\<close> with \<open>qos > 0\<close> has passed its checks and reserved
  a slot, or \<open>mqtt_subscribe\<close> has reserved its slot, and the call then returns a
  failure, the pending table is the one the reservation left: the reserved entry is
  still in it, and the table has one free slot less than before the call.
\<close>

theorem reserved_slot_kept_on_failure:
  "(publish_checks_pass env stat msg \<and> 0 < pub_qos msg \<and>
    reserve_packet_slot_for_answer stat (if pub_qos msg = 2 then PUBREC else PUBACK) =
      (Inr pid, stat1) \<and>
    mqtt_publish env stat msg = Some (r, stat', msg') \<and> FAILED r \<longrightarrow>
      pending stat' = pending stat1 \<and> Suc (free_slots stat') = free_slots stat \<and>
      \<lparr>packet_id = pid, await_packet_type = (if pub_qos msg = 2 then PUBREC else PUBACK)\<rparr>
        \<in> set (pending stat')) \<and>
   (ents \<noteq> [] \<and> connected stat \<and>
    reserve_packet_slot_for_answer (stat\<lparr>subscribe := (subscribe stat)\<lparr>entries := ents\<rparr>\<rparr>) SUBACK =
      (Inr pid2, stat2) \<and>
    mqtt_subscribe env stat ents = Some (r2, stat2') \<and> FAILED r2 \<longrightarrow>
      pending stat2' = pending stat2 \<and> Suc (free_slots stat2') = free_slots stat \<and>
      \<lparr>packet_id = pid2, await_packet_type = SUBACK\<rparr> \<in> set (pending stat2'))"
proof (rule conjI; rule impI)
  assume a: "publish_checks_pass env stat msg \<and> 0 < pub_qos msg \<and>
    reserve_packet_slot_for_answer stat (if pub_qos msg = 2 then PUBREC else PUBACK) =
      (Inr pid, stat1) \<and>
    mqtt_publish env stat msg = Some (r, stat', msg') \<and> FAILED r"
  then have n: "connected stat" "\<not> publish_not_utf8 env stat msg"
      "\<not> 2 < pub_qos msg" "\<not> max_qos (connack stat) < pub_qos msg"
      "\<not> (pub_retain msg \<and> \<not> retain_avail (connack stat))"
      "\<not> has_wildcard (pub_topic msg)" "0 < pub_qos msg"
    by (auto simp: publish_checks_pass_def not_less)
  from a have rs: "reserve_packet_slot_for_answer stat
      (if pub_qos msg = 2 then PUBREC else PUBACK) = (Inr pid, stat1)" by simp
  from a have res: "mqtt_publish env stat msg = Some (r, stat', msg')" by simp
  have p: "pending stat' = pending stat1"
    using res rs
    by (auto simp: mqtt_publish_def validate_publish_eq n Let_def
            split: if_splits option.splits)
  from reserve_answer_effect [OF rs] p
  show "pending stat' = pending stat1 \<and> Suc (free_slots stat') = free_slots stat \<and>
      \<lparr>packet_id = pid, await_packet_type = (if pub_qos msg = 2 then PUBREC else PUBACK)\<rparr>
        \<in> set (pending stat')"
    by (simp add: free_slots_def)
next
  assume a: "ents \<noteq> [] \<and> connected stat \<and>
    reserve_packet_slot_for_answer (stat\<lparr>subscribe := (subscribe stat)\<lparr>entries := ents\<rparr>\<rparr>) SUBACK =
      (Inr pid2, stat2) \<and>
    mqtt_subscribe env stat ents = Some (r2, stat2') \<and> FAILED r2"
  then have rs: "reserve_packet_slot_for_answer
      (stat\<lparr>subscribe := (subscribe stat)\<lparr>entries := ents\<rparr>\<rparr>) SUBACK = (Inr pid2, stat2)"
    and res: "mqtt_subscribe env stat ents = Some (r2, stat2')"
    and n: "ents \<noteq> []" "connected stat" by simp_all
  have p: "pending stat2' = pending stat2"
    using res rs n
    by (auto simp: mqtt_subscribe_def Let_def split: if_splits option.splits)
  from reserve_answer_effect [OF rs] p
  show "pending stat2' = pending stat2 \<and> Suc (free_slots stat2') = free_slots stat \<and>
      \<lparr>packet_id = pid2, await_packet_type = SUBACK\<rparr> \<in> set (pending stat2')"
    by (simp add: free_slots_def)
qed

text \<open>
  The theorem over a transport whose buffer allocation fails: a QoS 1 publication and a
  subscription on the client after CONNACK each return \<open>ERROR_OUT_OF_MEMORY\<close> and
  leave 31 of the 32 slots free.
\<close>

theorem reserved_slot_kept_on_failure_witness:
  "publish_checks_pass net_no_memory connected_client (msg_ab_hi 1) \<and>
   0 < pub_qos (msg_ab_hi 1) \<and> [sub_ab] \<noteq> [] \<and> connected connected_client \<and>
   FAILED ERROR_OUT_OF_MEMORY \<and> free_slots connected_client = 32 \<and>
   (\<exists>stat1 stat' msg'.
      reserve_packet_slot_for_answer connected_client PUBACK = (Inr 1, stat1) \<and>
      mqtt_publish net_no_memory connected_client (msg_ab_hi 1) =
        Some (ERROR_OUT_OF_MEMORY, stat', msg') \<and>
      free_slots stat' = 31 \<and>
      \<lparr>packet_id = 1, await_packet_type = PUBACK\<rparr> \<in> set (pending stat')) \<and>
   (\<exists>stat2 stat2'.
      reserve_packet_slot_for_answer
        (connected_client\<lparr>subscribe := (subscribe connected_client)\<lparr>entries := [sub_ab]\<rparr>\<rparr>)
        SUBACK = (Inr 1, stat2) \<and>
      mqtt_subscribe net_no_memory connected_client [sub_ab] =
        Some (ERROR_OUT_OF_MEMORY, stat2') \<and>
      free_slots stat2' = 31 \<and>
      \<lparr>packet_id = 1, await_packet_type = SUBACK\<rparr> \<in> set (pending stat2'))"
proof -
  have c: "publish_checks_pass net_no_memory connected_client (msg_ab_hi 1)" by code_simp
  have q: "0 < pub_qos (msg_ab_hi 1)" "pub_qos (msg_ab_hi 1) \<noteq> 2"
    by (simp_all add: msg_ab_hi_def)
  have k: "connected connected_client" by (simp add: connected_client_def)
  have f: "free_slots connected_client = 32" by code_simp
  have "fst (reserve_packet_slot_for_answer connected_client PUBACK) = Inr 1" by code_simp
  then obtain stat1 where r1:
    "reserve_packet_slot_for_answer connected_client PUBACK = (Inr 1, stat1)"
    by (cases "reserve_packet_slot_for_answer connected_client PUBACK") auto
  have "map_option fst (mqtt_publish net_no_memory connected_client (msg_ab_hi 1)) =
        Some ERROR_OUT_OF_MEMORY" by code_simp
  then obtain stat' msg' where p1:
    "mqtt_publish net_no_memory connected_client (msg_ab_hi 1) =
       Some (ERROR_OUT_OF_MEMORY, stat', msg')"
    by auto
  have "fst (reserve_packet_slot_for_answer
        (connected_client\<lparr>subscribe := (subscribe connected_client)\<lparr>entries := [sub_ab]\<rparr>\<rparr>)
        SUBACK) = Inr 1" by code_simp
  then obtain stat2 where r2:
    "reserve_packet_slot_for_answer
        (connected_client\<lparr>subscribe := (subscribe connected_client)\<lparr>entries := [sub_ab]\<rparr>\<rparr>)
        SUBACK = (Inr 1, stat2)"
    by (cases "reserve_packet_slot_for_answer
        (connected_client\<lparr>subscribe := (subscribe connected_client)\<lparr>entries := [sub_ab]\<rparr>\<rparr>)
        SUBACK") auto
  have "map_option fst (mqtt_subscribe net_no_memory connected_client [sub_ab]) =
        Some ERROR_OUT_OF_MEMORY" by code_simp
  then obtain stat2' where p2:
    "mqtt_subscribe net_no_memory connected_client [sub_ab] = Some (ERROR_OUT_OF_MEMORY, stat2')"
    by auto
  have t: "(if pub_qos (msg_ab_hi 1) = 2 then PUBREC else PUBACK) = PUBACK"
    using q by simp
  have F: "FAILED ERROR_OUT_OF_MEMORY" by simp
  from reserved_slot_kept_on_failure
         [of net_no_memory connected_client "msg_ab_hi 1" 1 stat1 ERROR_OUT_OF_MEMORY stat' msg'
             "[sub_ab]" 1 stat2 ERROR_OUT_OF_MEMORY stat2']
  have a: "Suc (free_slots stat') = free_slots connected_client \<and>
           \<lparr>packet_id = 1, await_packet_type = PUBACK\<rparr> \<in> set (pending stat')"
    and b: "Suc (free_slots stat2') = free_slots connected_client \<and>
           \<lparr>packet_id = 1, await_packet_type = SUBACK\<rparr> \<in> set (pending stat2')"
    unfolding t using c q(1) k r1 p1 r2 p2 F by blast+
  from a b f have "free_slots stat' = 31" "free_slots stat2' = 31" by simp_all
  with a b c q(1) k r1 p1 r2 p2 F f show ?thesis by blast
qed

section \<open>The QoS 2 acknowledgements\<close>




























text \<open>
  The same scenario through \<open>mqtt_process_packet\<close>, and the state it starts from as
  the result of the QoS 2 publication.
\<close>

lemma qos2_scenario:
  "map_option fst (feed (net_ok False) qos2_sent [pubrec_1, pubcomp_1, pubcomp_1]) =
     Some [OK, OK, ERROR_UNEXPECTED_PACKET_TYPE]"
  by code_simp

lemma qos2_sent_reached:
  "map_option fst (mqtt_publish (net_ok False) connected_client (msg_ab_hi 2)) = Some OK \<and>
   map_option (\<lambda>(r, s, m). pending s) (mqtt_publish (net_ok False) connected_client (msg_ab_hi 2)) =
     Some (pending qos2_sent) \<and>
   map_option (\<lambda>(r, s, m). expected_ptypes s)
     (mqtt_publish (net_ok False) connected_client (msg_ab_hi 2)) =
     Some (expected_ptypes qos2_sent)"
  by code_simp

text \<open>
  The table of the state with identifier 1 in two slots, as the reservation for the
  inbound PUBLISH and the QoS 2 publication leave it.
\<close>

lemma qos2_sent_after_inbound_reached:
  "map_option (\<lambda>(r, s, m). (r, pending s))
     (mqtt_publish (net_ok False) (apply_op connected_client (Reserve_inbound 1 PUBREL))
        (msg_ab_hi 2)) =
     Some (OK, pending qos2_sent_after_inbound)"
  by code_simp

end
